theory Spec2Isabelle
  imports Complex_Main "HOL-Library.Char_ord" "HOL-Library.List_Lexorder"
    "HOL-Library.Product_Lexorder" "HOL-Library.Sublist"
begin

section \<open>Data model\<close>

text \<open>
  The dataset is the data frame \<^verbatim>\<open>df\<close> of \<^verbatim>\<open>app.py\<close>: a list of rows with the columns
  Make, Model, Year and Rating. Make and Model are strings, Year is the parsed year.
  A Rating cell is a number, a text that is not a number, or empty (pandas' NaN).
  Numbers are exact rationals: the rounding of binary floating point is not part of
  the model. Strings are ordered as Python orders them, character by character;
  group keys are pairs ordered lexicographically.
\<close>

datatype cell = Num rat | Text string | Missing

record row =
  Make :: string
  Model :: string
  Year :: int
  Rating :: cell

type_synonym dataset = "row list"

text \<open>
  \<^verbatim>\<open>pd.to_numeric(..., errors='coerce')\<close> on one cell: a number stays, anything else
  becomes the missing marker. It never raises.
\<close>

fun to_numeric :: "cell \<Rightarrow> cell" where
  "to_numeric (Num r) = Num r"
| "to_numeric (Text s) = Missing"
| "to_numeric Missing = Missing"

text \<open>The value of a cell of a numeric column: \<open>None\<close> is NaN.\<close>

fun num_val :: "cell \<Rightarrow> rat option" where
  "num_val (Num r) = Some r"
| "num_val (Text s) = None"
| "num_val Missing = None"

text \<open>\<^verbatim>\<open>df['Rating'] = pd.to_numeric(df['Rating'], errors='coerce')\<close>: the column is replaced.\<close>

definition coerce_ratings :: "dataset \<Rightarrow> dataset" where
  "coerce_ratings df = map (\<lambda>r. r\<lparr>Rating := to_numeric (Rating r)\<rparr>) df"

text \<open>\<^verbatim>\<open>Series.unique()\<close>: the distinct values in order of first appearance.\<close>

fun unique :: "'a list \<Rightarrow> 'a list" where
  "unique [] = []"
| "unique (x # xs) = x # unique (filter (\<lambda>y. y \<noteq> x) xs)"

text \<open>\<^verbatim>\<open>Series.mean()\<close>: NaN entries are skipped; the mean of no numbers is NaN.\<close>

definition mean :: "rat option list \<Rightarrow> rat option" where
  "mean xs =
     (let vs = List.map_filter id xs
      in if vs = [] then None else Some (sum_list vs / of_nat (length vs)))"

text \<open>\<^verbatim>\<open>Series.fillna(v)\<close> and \<^verbatim>\<open>Series.mul(k)\<close> on a numeric column.\<close>

definition fillna :: "rat \<Rightarrow> rat option list \<Rightarrow> rat option list" where
  "fillna v xs = map (\<lambda>x. case x of None \<Rightarrow> Some v | Some r \<Rightarrow> Some r) xs"

definition mul :: "rat \<Rightarrow> rat option list \<Rightarrow> rat option list" where
  "mul k xs = map (map_option (\<lambda>r. r * k)) xs"

text \<open>
  \<^verbatim>\<open>df.groupby(['Make', 'Model'])\<close>: the distinct keys in sorted order, each with its
  rows in the order of the frame.
\<close>

definition group_keys :: "dataset \<Rightarrow> (string \<times> string) list" where
  "group_keys df = sort (unique (map (\<lambda>r. (Make r, Model r)) df))"

definition groupby_make_model :: "dataset \<Rightarrow> ((string \<times> string) \<times> dataset) list" where
  "groupby_make_model df =
     map (\<lambda>k. (k, filter (\<lambda>r. (Make r, Model r) = k) df)) (group_keys df)"

text \<open>\<^verbatim>\<open>brand_data.groupby('Model')['Rating'].mean()\<close>: a series indexed by model.\<close>

definition model_means :: "dataset \<Rightarrow> (string \<times> rat option) list" where
  "model_means df =
     map (\<lambda>m. (m, mean (map (num_val \<circ> Rating) (filter (\<lambda>r. Model r = m) df))))
       (sort (unique (map Model df)))"

text \<open>
  \<^verbatim>\<open>Series.idxmax()\<close> and \<^verbatim>\<open>Series.idxmin()\<close>: a scan from the first entry that skips
  NaN and replaces the entry kept so far only by a strictly better one, so the first
  of several equal extremes wins. With no number in the series the label is NaN,
  here \<open>None\<close>.
\<close>

fun scan_best :: "(rat \<Rightarrow> rat \<Rightarrow> bool) \<Rightarrow> (string \<times> rat) option \<Rightarrow>
    (string \<times> rat option) list \<Rightarrow> (string \<times> rat) option" where
  "scan_best better best [] = best"
| "scan_best better best ((k, None) # xs) = scan_best better best xs"
| "scan_best better None ((k, Some v) # xs) = scan_best better (Some (k, v)) xs"
| "scan_best better (Some (bk, bv)) ((k, Some v) # xs) =
     scan_best better (if better v bv then Some (k, v) else Some (bk, bv)) xs"

definition idxmax :: "(string \<times> rat option) list \<Rightarrow> string option" where
  "idxmax s = map_option fst (scan_best (\<lambda>v b. b < v) None s)"

definition idxmin :: "(string \<times> rat option) list \<Rightarrow> string option" where
  "idxmin s = map_option fst (scan_best (\<lambda>v b. v < b) None s)"

datatype error = KeyError | ValueError

text \<open>
  \<^verbatim>\<open>model_averages[label]\<close>: the value at a label. The NaN label that
  \<^verbatim>\<open>idxmax\<close> gives for a series without numbers is not in the index, and the lookup
  raises KeyError (later pandas versions raise in \<^verbatim>\<open>idxmax\<close> itself).
\<close>

definition getitem :: "(string \<times> rat option) list \<Rightarrow> string option \<Rightarrow> error + rat option" where
  "getitem s label =
     (case label of None \<Rightarrow> Inl KeyError
      | Some k \<Rightarrow> (case map_of s k of None \<Rightarrow> Inl KeyError | Some v \<Rightarrow> Inr v))"

text \<open>How an f-string shows an index label: the NaN label reads \<^verbatim>\<open>nan\<close>.\<close>

definition label_text :: "string option \<Rightarrow> string" where
  "label_text label = (case label of None \<Rightarrow> ''nan'' | Some k \<Rightarrow> k)"

section \<open>The chart description\<close>

datatype visibility = Visible | LegendOnly

text \<open>
  One \<^verbatim>\<open>go.Scatter\<close> trace. The hover texts are kept as the pairs of series name and
  rating that the source formats with \<^verbatim>\<open>:.1f\<close>.
\<close>

record trace =
  x_values :: "int list"
  y_values :: "rat option list"
  name :: string
  line_color :: string
  marker_size :: "rat option list"
  marker_color :: string
  hover_text :: "(string \<times> rat option) list"
  visible :: visibility
  showlegend :: bool

text \<open>
  The title, by the branch of the source that builds it; \<open>title_text\<close> below renders
  it with the two number formats of the source as parameters.
\<close>

datatype title =
    Static_Title
  | Model_Title string string "rat option"
  | Best_Worst_Title string "rat option" string "rat option" string "rat option"
  | Make_Title string "rat option"

text \<open>
  The figure: its traces and its title. The rest of the layout (axis titles, sizes,
  background) is the same for every dataset and selection and is left out.
\<close>

record figure =
  data :: "trace list"
  layout_title :: title

definition palette :: "string list" where
  "palette = [''#003e8a'', ''#0049a3'', ''#0060d6'', ''#006cf0'', ''#0a78ff'', ''#3d94ff'',
     ''#70b0ff'', ''#a3cdff'', ''#6e6e6e'', ''#7a7a7a'', ''#878787'', ''#949494'',
     ''#c7c7c7'', ''#d4d4d4'', ''#e0e0e0'']"

definition series_name :: "string \<times> string \<Rightarrow> string" where
  "series_name k = fst k @ '' - '' @ snd k"

text \<open>
  The body of the loop over the groups (lines 53 to 79): the arguments given to
  \<^verbatim>\<open>go.Scatter\<close>, as a trace.
\<close>

definition scatter_args :: "string \<Rightarrow> nat \<Rightarrow> (string \<times> string) \<times> dataset \<Rightarrow> trace" where
  "scatter_args selected_make i g =
     (let name = fst g; group = snd g;
          ratings = map (num_val \<circ> Rating) group;
          marker_sizes = mul 3 (fillna 5 ratings);
          (visible, showlegend) =
            (if selected_make \<noteq> ''All'' then
               (if fst name \<noteq> selected_make then (LegendOnly, False) else (Visible, True))
             else (Visible, True));
          colour = palette ! (i mod length palette)
      in \<lparr>x_values = map Year group, y_values = ratings, name = series_name name,
          line_color = colour, marker_size = marker_sizes, marker_color = colour,
          hover_text = map (\<lambda>rating. (series_name name, rating)) ratings,
          visible = visible, showlegend = showlegend\<rparr>)"

text \<open>
  \<^verbatim>\<open>go.Scatter\<close> validates its arguments: a marker size must not be negative, and a
  negative one raises ValueError. The other arguments the loop passes are always valid.
\<close>

definition negative_size :: "rat option \<Rightarrow> bool" where
  "negative_size s = (case s of None \<Rightarrow> False | Some v \<Rightarrow> v < 0)"

definition go_Scatter :: "trace \<Rightarrow> error + trace" where
  "go_Scatter t = (if list_ex negative_size (marker_size t) then Inl ValueError else Inr t)"

definition make_trace :: "string \<Rightarrow> nat \<Rightarrow> (string \<times> string) \<times> dataset \<Rightarrow> error + trace" where
  "make_trace selected_make i g = go_Scatter (scatter_args selected_make i g)"

text \<open>The loop: the traces are added in the order of the groups, up to the first error.\<close>

fun add_traces :: "string \<Rightarrow> (nat \<times> (string \<times> string) \<times> dataset) list \<Rightarrow> error + trace list" where
  "add_traces selected_make [] = Inr []"
| "add_traces selected_make ((i, g) # gs) =
     (case make_trace selected_make i g of
        Inl e \<Rightarrow> Inl e
      | Inr t \<Rightarrow>
          (case add_traces selected_make gs of
             Inl e \<Rightarrow> Inl e
           | Inr ts \<Rightarrow> Inr (t # ts)))"

definition build_traces :: "dataset \<Rightarrow> string \<Rightarrow> error + trace list" where
  "build_traces df selected_make = add_traces selected_make (enumerate 0 (groupby_make_model df))"

text \<open>The title (lines 82 to 104).\<close>

definition make_title :: "dataset \<Rightarrow> string \<Rightarrow> string \<Rightarrow> error + title" where
  "make_title df selected_make selected_model =
     (if selected_make \<noteq> ''All'' then
        (let brand_data = filter (\<lambda>r. Make r = selected_make) df;
             avg_rating = mean (map (num_val \<circ> Rating) brand_data)
         in if selected_model \<noteq> ''All'' then
              (let model_data = filter (\<lambda>r. Model r = selected_model) brand_data;
                   avg_rating = mean (map (num_val \<circ> Rating) model_data)
               in Inr (Model_Title selected_make selected_model avg_rating))
            else
              (let model_averages = model_means brand_data
               in if length model_averages > 1 then
                    (let best_model = idxmax model_averages;
                         worst_model = idxmin model_averages
                     in case getitem model_averages best_model of
                          Inl e \<Rightarrow> Inl e
                        | Inr best_avg \<Rightarrow>
                            (case getitem model_averages worst_model of
                               Inl e \<Rightarrow> Inl e
                             | Inr worst_avg \<Rightarrow>
                                 Inr (Best_Worst_Title selected_make avg_rating
                                   (label_text best_model) best_avg
                                   (label_text worst_model) worst_avg)))
                  else Inr (Make_Title selected_make avg_rating)))
      else Inr Static_Title)"

text \<open>
  \<^verbatim>\<open>create_car_ratings_plot\<close>: the coercion, the loop, then the title. The frame it
  is given is the shared one and the first statement assigns to its Rating column, so
  the function returns the frame as it leaves it, also when the loop or the title
  raises.
\<close>

definition create_car_ratings_plot ::
    "dataset \<Rightarrow> string \<Rightarrow> string \<Rightarrow> (error + figure) \<times> dataset" where
  "create_car_ratings_plot df0 selected_make selected_model =
     (let df = coerce_ratings df0
      in (case build_traces df selected_make of
            Inl e \<Rightarrow> Inl e
          | Inr traces \<Rightarrow>
              (case make_title df selected_make selected_model of
                 Inl e \<Rightarrow> Inl e
               | Inr t \<Rightarrow> Inr \<lparr>data = traces, layout_title = t\<rparr>),
          df))"

text \<open>
  The text of the title. \<open>f2\<close> and \<open>f1\<close> stand for Python's formats \<^verbatim>\<open>:.2f\<close> and
  \<^verbatim>\<open>:.1f\<close> of a float (NaN included).
\<close>

fun title_text :: "(rat option \<Rightarrow> string) \<Rightarrow> (rat option \<Rightarrow> string) \<Rightarrow> title \<Rightarrow> string" where
  "title_text f2 f1 Static_Title = ''Car Ratings Evolution Over Time''"
| "title_text f2 f1 (Model_Title mk md avg) =
     mk @ '' '' @ md @ '' Ratings Evolution<br>Average Rating: '' @ f2 avg"
| "title_text f2 f1 (Best_Worst_Title mk avg b bv w wv) =
     mk @ '' Ratings Evolution<br>Average: '' @ f2 avg @ '' | Best: '' @ b @ '' ('' @ f1 bv
       @ '') | Worst: '' @ w @ '' ('' @ f1 wv @ '')''"
| "title_text f2 f1 (Make_Title mk avg) =
     mk @ '' Ratings Evolution<br>Average Rating: '' @ f2 avg"

section \<open>The callbacks\<close>

text \<open>
  Both callbacks read the shared frame \<^verbatim>\<open>df\<close>; each is given it and returns it as it
  leaves it, next to its outputs.
\<close>

record option_entry =
  label :: string
  "value" :: string

definition update_model_dropdown ::
    "dataset \<Rightarrow> string \<Rightarrow> (option_entry list \<times> string) \<times> dataset" where
  "update_model_dropdown df selected_make =
     (let models =
            (if selected_make = ''All'' then ''All'' # sort (unique (map Model df))
             else ''All'' #
               sort (unique (map Model (filter (\<lambda>r. Make r = selected_make) df))))
      in ((map (\<lambda>model. \<lparr>label = model, value = model\<rparr>) models, ''All''), df))"

text \<open>\<^verbatim>\<open>selected_model not in trace.name\<close> is Python's substring test.\<close>

definition hide_unless_named :: "string \<Rightarrow> trace \<Rightarrow> trace" where
  "hide_unless_named selected_model t =
     (if \<not> sublist selected_model (name t) then t\<lparr>visible := LegendOnly\<rparr> else t)"

definition update_figure :: "dataset \<Rightarrow> string \<Rightarrow> string \<Rightarrow> (error + figure) \<times> dataset" where
  "update_figure df0 selected_make selected_model =
     (case create_car_ratings_plot df0 selected_make selected_model of
        (Inl e, df) \<Rightarrow> (Inl e, df)
      | (Inr fig, df) \<Rightarrow>
          (Inr (if selected_model \<noteq> ''All''
                then fig\<lparr>data := map (hide_unless_named selected_model) (data fig)\<rparr>
                else fig),
           df))"

section \<open>Notions the properties are stated with\<close>

text \<open>
  The numbers in the Rating column of some rows as the file has them, the arithmetic
  mean of a list of numbers (undefined, shown as NaN, when there is none), and the
  rows a selection filters to.
\<close>

definition numeric_ratings :: "dataset \<Rightarrow> rat list" where
  "numeric_ratings df = concat (map (\<lambda>r. case Rating r of Num v \<Rightarrow> [v] | _ \<Rightarrow> []) df)"

definition arithmetic_mean :: "rat list \<Rightarrow> rat option" where
  "arithmetic_mean vs = (if vs = [] then None else Some (sum_list vs / of_nat (length vs)))"

definition brand_rows :: "dataset \<Rightarrow> string \<Rightarrow> dataset" where
  "brand_rows df mk = filter (\<lambda>r. Make r = mk) df"

definition selected_rows :: "dataset \<Rightarrow> string \<Rightarrow> string \<Rightarrow> dataset" where
  "selected_rows df mk md =
     (if md = ''All'' then brand_rows df mk else filter (\<lambda>r. Model r = md) (brand_rows df mk))"

definition models_of :: "dataset \<Rightarrow> string \<Rightarrow> string list" where
  "models_of df mk = unique (map Model (brand_rows df mk))"

definition model_mean :: "dataset \<Rightarrow> string \<Rightarrow> string \<Rightarrow> rat option" where
  "model_mean df mk m =
     arithmetic_mean (numeric_ratings (filter (\<lambda>r. Model r = m) (brand_rows df mk)))"

text \<open>
  The selections at which the title cannot be built: a make with several models and
  not one numeric rating, no model chosen. The datasets for which no trace list can be
  built: those with a negative rating. The chart is built in all other cases.
\<close>

definition title_raises :: "dataset \<Rightarrow> string \<Rightarrow> string \<Rightarrow> bool" where
  "title_raises df mk md =
     (mk \<noteq> ''All'' \<and> md = ''All'' \<and> 1 < length (models_of df mk)
      \<and> numeric_ratings (brand_rows df mk) = [])"

definition has_negative_rating :: "dataset \<Rightarrow> bool" where
  "has_negative_rating df = list_ex (\<lambda>v. v < 0) (numeric_ratings df)"

definition plot_raises :: "dataset \<Rightarrow> string \<Rightarrow> string \<Rightarrow> bool" where
  "plot_raises df mk md = (has_negative_rating df \<or> title_raises df mk md)"

text \<open>The traces of a chart whose every trace \<^verbatim>\<open>go.Scatter\<close> accepts.\<close>

definition all_traces :: "dataset \<Rightarrow> string \<Rightarrow> trace list" where
  "all_traces df selected_make =
     map (\<lambda>(i, g). scatter_args selected_make i g) (enumerate 0 (groupby_make_model df))"

text \<open>The mean a title shows, if it shows one, and whether it names a best and a worst model.\<close>

fun shown_mean :: "title \<Rightarrow> rat option option" where
  "shown_mean Static_Title = None"
| "shown_mean (Model_Title mk md avg) = Some avg"
| "shown_mean (Best_Worst_Title mk avg b bv w wv) = Some avg"
| "shown_mean (Make_Title mk avg) = Some avg"

fun shows_best_worst :: "title \<Rightarrow> bool" where
  "shows_best_worst (Best_Worst_Title mk avg b bv w wv) = True"
| "shows_best_worst t = False"

text \<open>The figure a call returns (or its error), and the frame it leaves.\<close>

definition returned :: "(error + figure) \<times> dataset \<Rightarrow> error + figure" where
  "returned res = fst res"

definition frame_after :: "'a \<times> dataset \<Rightarrow> dataset" where
  "frame_after res = snd res"

text \<open>The legend lists the traces with \<^verbatim>\<open>showlegend\<close> set, also those drawn legend-only.\<close>

definition legend_entries :: "figure \<Rightarrow> string list" where
  "legend_entries fig = map name (filter showlegend (data fig))"

text \<open>The marker size of a point, from the cell of its row.\<close>

definition size_of_cell :: "cell \<Rightarrow> rat" where
  "size_of_cell c = (case c of Num v \<Rightarrow> v * 3 | _ \<Rightarrow> 15)"

text \<open>A trace without its visibility state: what the series is, not how it is shown.\<close>

definition unemphasized :: "trace \<Rightarrow> trace" where
  "unemphasized t = t\<lparr>visible := Visible, showlegend := True\<rparr>"

text \<open>Projections of the results of the callbacks.\<close>

definition title_of :: "(error + figure) \<times> dataset \<Rightarrow> error + title" where
  "title_of res = map_sum id layout_title (returned res)"

definition marker_sizes_of :: "(error + figure) \<times> dataset \<Rightarrow> error + rat option list list" where
  "marker_sizes_of res = map_sum id (map marker_size \<circ> data) (returned res)"

definition legend_of :: "(error + figure) \<times> dataset \<Rightarrow> error + string list" where
  "legend_of res = map_sum id legend_entries (returned res)"

definition visibility_of :: "(error + figure) \<times> dataset \<Rightarrow> error + (string \<times> visibility) list" where
  "visibility_of res = map_sum id (map (\<lambda>t. (name t, visible t)) \<circ> data) (returned res)"

definition model_options :: "(option_entry list \<times> string) \<times> dataset \<Rightarrow> string list" where
  "model_options res = map value (fst (fst res))"

definition model_value :: "(option_entry list \<times> string) \<times> dataset \<Rightarrow> string" where
  "model_value res = snd (fst res)"

text \<open>Two small datasets used to run the callbacks.\<close>

definition fleet :: dataset where
  "fleet = [\<lparr>Make = ''Toyota'', Model = ''Yaris'', Year = 2020, Rating = Num 9\<rparr>,
            \<lparr>Make = ''Toyota'', Model = ''Corolla'', Year = 2020, Rating = Num 8\<rparr>,
            \<lparr>Make = ''Toyota'', Model = ''Camry'', Year = 2020, Rating = Num 9\<rparr>,
            \<lparr>Make = ''Toyota'', Model = ''Corolla'', Year = 2021, Rating = Missing\<rparr>,
            \<lparr>Make = ''Honda'', Model = ''Civic'', Year = 2020, Rating = Num 7\<rparr>]"

definition golf :: dataset where
  "golf = [\<lparr>Make = ''VW'', Model = ''Golf GTI'', Year = 2020, Rating = Num 9\<rparr>,
           \<lparr>Make = ''VW'', Model = ''Golf'', Year = 2020, Rating = Num 8\<rparr>,
           \<lparr>Make = ''Volvo'', Model = ''XC90'', Year = 2020, Rating = Text ''unrated''\<rparr>]"

section \<open>Auxiliary facts\<close>

lemma set_unique: "set (unique xs) = set xs"
  by (induction xs rule: unique.induct) auto

lemma distinct_unique: "distinct (unique xs)"
  by (induction xs rule: unique.induct) (auto simp: set_unique)

lemma num_val_to_numeric: "num_val (to_numeric c) = num_val c"
  by (cases c) simp_all

lemma to_numeric_idem: "to_numeric (to_numeric c) = to_numeric c"
  by (cases c) simp_all

lemma ratings_coerce: "map (num_val \<circ> Rating) (coerce_ratings df) = map (num_val \<circ> Rating) df"
  by (simp add: coerce_ratings_def num_val_to_numeric)

lemma Make_coerce: "map Make (coerce_ratings df) = map Make df"
  and Model_coerce: "map Model (coerce_ratings df) = map Model df"
  and Year_coerce: "map Year (coerce_ratings df) = map Year df"
  and key_coerce: "map (\<lambda>r. (Make r, Model r)) (coerce_ratings df) = map (\<lambda>r. (Make r, Model r)) df"
  by (simp_all add: coerce_ratings_def)

lemma filter_Make_coerce:
  "filter (\<lambda>r. Make r = mk) (coerce_ratings df) = coerce_ratings (filter (\<lambda>r. Make r = mk) df)"
  by (simp add: coerce_ratings_def filter_map o_def)

lemma filter_Model_coerce:
  "filter (\<lambda>r. Model r = md) (coerce_ratings df) = coerce_ratings (filter (\<lambda>r. Model r = md) df)"
  by (simp add: coerce_ratings_def filter_map o_def)

lemma filter_key_coerce:
  "filter (\<lambda>r. (Make r, Model r) = k) (coerce_ratings df)
     = coerce_ratings (filter (\<lambda>r. (Make r, Model r) = k) df)"
  by (simp add: coerce_ratings_def filter_map o_def)

lemma coerce_idem: "coerce_ratings (coerce_ratings df) = coerce_ratings df"
  by (simp add: coerce_ratings_def to_numeric_idem)

lemma map_filter_ratings: "List.map_filter id (map (num_val \<circ> Rating) df) = numeric_ratings df"
  by (induction df) (auto simp: numeric_ratings_def List.map_filter_simps split: cell.splits)

lemma mean_ratings: "mean (map (num_val \<circ> Rating) df) = arithmetic_mean (numeric_ratings df)"
  by (simp add: mean_def arithmetic_mean_def map_filter_ratings Let_def)

lemma group_keys_coerce: "group_keys (coerce_ratings df) = group_keys df"
  by (simp add: group_keys_def key_coerce)

lemma model_means_coerce: "model_means (coerce_ratings df) = model_means df"
  by (simp add: model_means_def Model_coerce filter_Model_coerce ratings_coerce)

lemma model_means_eq:
  "model_means df = map (\<lambda>m. (m, arithmetic_mean (numeric_ratings (filter (\<lambda>r. Model r = m) df))))
       (sort (unique (map Model df)))"
  by (simp add: model_means_def mean_ratings)


lemma scan_best_acc_Some: "scan_best better (Some a) xs \<noteq> None"
proof (induction xs arbitrary: a)
  case Nil
  show ?case by simp
next
  case (Cons p xs)
  obtain k v where p: "p = (k, v)" by (cases p)
  obtain bk bv where a: "a = (bk, bv)" by (cases a)
  show ?case using Cons.IH by (cases v) (simp_all add: p a)
qed

lemma scan_best_None_iff:
  "scan_best better None xs = None \<longleftrightarrow> (\<forall>p \<in> set xs. snd p = None)"
proof (induction xs)
  case Nil
  show ?case by simp
next
  case (Cons p xs)
  obtain k v where p: "p = (k, v)" by (cases p)
  show ?case using Cons.IH by (cases v) (simp_all add: p scan_best_acc_Some)
qed

lemma scan_best_acc_decomp:
  assumes tr: "\<forall>a b c. better a b \<longrightarrow> better b c \<longrightarrow> better a c"
    and mx: "\<forall>a b c. \<not> better a b \<longrightarrow> better c b \<longrightarrow> better c a"
  shows "scan_best better (Some (bk, bv)) xs = Some (k, v) \<Longrightarrow>
     ((k, v) = (bk, bv) \<and> (\<forall>p \<in> set xs. \<forall>w. snd p = Some w \<longrightarrow> \<not> better w bv)) \<or>
     (better v bv \<and> (\<exists>pre post. xs = pre @ (k, Some v) # post
        \<and> (\<forall>p \<in> set pre. \<forall>w. snd p = Some w \<longrightarrow> better v w)
        \<and> (\<forall>p \<in> set post. \<forall>w. snd p = Some w \<longrightarrow> \<not> better w v)))"
proof (induction xs arbitrary: bk bv)
  case Nil
  then show ?case by simp
next
  case (Cons p xs)
  obtain k' v' where p: "p = (k', v')" by (cases p)
  show ?case
  proof (cases v')
    case None
    with Cons.prems p have "scan_best better (Some (bk, bv)) xs = Some (k, v)" by simp
    from Cons.IH [OF this] show ?thesis
    proof
      assume "(k, v) = (bk, bv) \<and> (\<forall>p \<in> set xs. \<forall>w. snd p = Some w \<longrightarrow> \<not> better w bv)"
      then show ?thesis by (simp add: p None)
    next
      assume "better v bv \<and> (\<exists>pre post. xs = pre @ (k, Some v) # post
        \<and> (\<forall>p \<in> set pre. \<forall>w. snd p = Some w \<longrightarrow> better v w)
        \<and> (\<forall>p \<in> set post. \<forall>w. snd p = Some w \<longrightarrow> \<not> better w v))"
      then obtain pre post where b: "better v bv" and x: "xs = pre @ (k, Some v) # post"
        and pr: "\<forall>p \<in> set pre. \<forall>w. snd p = Some w \<longrightarrow> better v w"
        and po: "\<forall>p \<in> set post. \<forall>w. snd p = Some w \<longrightarrow> \<not> better w v" by blast
      have "p # xs = (p # pre) @ (k, Some v) # post" by (simp add: x)
      moreover have "\<forall>q \<in> set (p # pre). \<forall>w. snd q = Some w \<longrightarrow> better v w"
        using pr by (simp add: p None)
      ultimately show ?thesis using b po by blast
    qed
  next
    case (Some w')
    show ?thesis
    proof (cases "better w' bv")
      case True
      with Cons.prems p Some have "scan_best better (Some (k', w')) xs = Some (k, v)" by simp
      from Cons.IH [OF this] show ?thesis
      proof
        assume a: "(k, v) = (k', w') \<and> (\<forall>p \<in> set xs. \<forall>w. snd p = Some w \<longrightarrow> \<not> better w w')"
        then have "p # xs = [] @ (k, Some v) # xs" by (simp add: p Some)
        moreover have "better v bv" using a True by simp
        moreover have "\<forall>p \<in> set xs. \<forall>w. snd p = Some w \<longrightarrow> \<not> better w v" using a by simp
        ultimately show ?thesis by (metis empty_iff empty_set)
      next
        assume "better v w' \<and> (\<exists>pre post. xs = pre @ (k, Some v) # post
          \<and> (\<forall>p \<in> set pre. \<forall>w. snd p = Some w \<longrightarrow> better v w)
          \<and> (\<forall>p \<in> set post. \<forall>w. snd p = Some w \<longrightarrow> \<not> better w v))"
        then obtain pre post where b: "better v w'" and x: "xs = pre @ (k, Some v) # post"
          and pr: "\<forall>p \<in> set pre. \<forall>w. snd p = Some w \<longrightarrow> better v w"
          and po: "\<forall>p \<in> set post. \<forall>w. snd p = Some w \<longrightarrow> \<not> better w v" by blast
        have "p # xs = (p # pre) @ (k, Some v) # post" by (simp add: x)
        moreover have "\<forall>q \<in> set (p # pre). \<forall>w. snd q = Some w \<longrightarrow> better v w"
          using pr b by (simp add: p Some)
        moreover have "better v bv" using tr b True by blast
        ultimately show ?thesis using po by blast
      qed
    next
      case False
      with Cons.prems p Some have "scan_best better (Some (bk, bv)) xs = Some (k, v)" by simp
      from Cons.IH [OF this] show ?thesis
      proof
        assume "(k, v) = (bk, bv) \<and> (\<forall>p \<in> set xs. \<forall>w. snd p = Some w \<longrightarrow> \<not> better w bv)"
        then show ?thesis using False by (simp add: p Some)
      next
        assume "better v bv \<and> (\<exists>pre post. xs = pre @ (k, Some v) # post
          \<and> (\<forall>p \<in> set pre. \<forall>w. snd p = Some w \<longrightarrow> better v w)
          \<and> (\<forall>p \<in> set post. \<forall>w. snd p = Some w \<longrightarrow> \<not> better w v))"
        then obtain pre post where b: "better v bv" and x: "xs = pre @ (k, Some v) # post"
          and pr: "\<forall>p \<in> set pre. \<forall>w. snd p = Some w \<longrightarrow> better v w"
          and po: "\<forall>p \<in> set post. \<forall>w. snd p = Some w \<longrightarrow> \<not> better w v" by blast
        have "p # xs = (p # pre) @ (k, Some v) # post" by (simp add: x)
        moreover have "better v w'" using mx False b by blast
        then have "\<forall>q \<in> set (p # pre). \<forall>w. snd q = Some w \<longrightarrow> better v w"
          using pr by (simp add: p Some)
        ultimately show ?thesis using b po by blast
      qed
    qed
  qed
qed

lemma scan_best_decomp:
  assumes tr: "\<forall>a b c. better a b \<longrightarrow> better b c \<longrightarrow> better a c"
    and mx: "\<forall>a b c. \<not> better a b \<longrightarrow> better c b \<longrightarrow> better c a"
  shows "scan_best better None xs = Some (k, v) \<Longrightarrow>
     \<exists>pre post. xs = pre @ (k, Some v) # post
        \<and> (\<forall>p \<in> set pre. \<forall>w. snd p = Some w \<longrightarrow> better v w)
        \<and> (\<forall>p \<in> set post. \<forall>w. snd p = Some w \<longrightarrow> \<not> better w v)"
proof (induction xs)
  case Nil
  then show ?case by simp
next
  case (Cons p xs)
  obtain k' v' where p: "p = (k', v')" by (cases p)
  show ?case
  proof (cases v')
    case None
    with Cons.prems p have "scan_best better None xs = Some (k, v)" by simp
    from Cons.IH [OF this] obtain pre post where x: "xs = pre @ (k, Some v) # post"
      and pr: "\<forall>p \<in> set pre. \<forall>w. snd p = Some w \<longrightarrow> better v w"
      and po: "\<forall>p \<in> set post. \<forall>w. snd p = Some w \<longrightarrow> \<not> better w v" by blast
    have "p # xs = (p # pre) @ (k, Some v) # post" by (simp add: x)
    moreover have "\<forall>q \<in> set (p # pre). \<forall>w. snd q = Some w \<longrightarrow> better v w"
      using pr by (simp add: p None)
    ultimately show ?thesis using po by blast
  next
    case (Some w')
    with Cons.prems p have "scan_best better (Some (k', w')) xs = Some (k, v)" by simp
    from scan_best_acc_decomp [OF tr mx this] show ?thesis
    proof
      assume a: "(k, v) = (k', w') \<and> (\<forall>p \<in> set xs. \<forall>w. snd p = Some w \<longrightarrow> \<not> better w w')"
      then have "p # xs = [] @ (k, Some v) # xs" by (simp add: p Some)
      moreover have "\<forall>p \<in> set xs. \<forall>w. snd p = Some w \<longrightarrow> \<not> better w v" using a by simp
      ultimately show ?thesis by (metis empty_iff empty_set)
    next
      assume "better v w' \<and> (\<exists>pre post. xs = pre @ (k, Some v) # post
          \<and> (\<forall>p \<in> set pre. \<forall>w. snd p = Some w \<longrightarrow> better v w)
          \<and> (\<forall>p \<in> set post. \<forall>w. snd p = Some w \<longrightarrow> \<not> better w v))"
      then obtain pre post where b: "better v w'" and x: "xs = pre @ (k, Some v) # post"
        and pr: "\<forall>p \<in> set pre. \<forall>w. snd p = Some w \<longrightarrow> better v w"
        and po: "\<forall>p \<in> set post. \<forall>w. snd p = Some w \<longrightarrow> \<not> better w v" by blast
      have "p # xs = (p # pre) @ (k, Some v) # post" by (simp add: x)
      moreover have "\<forall>q \<in> set (p # pre). \<forall>w. snd q = Some w \<longrightarrow> better v w"
        using pr b by (simp add: p Some)
      ultimately show ?thesis using po by blast
    qed
  qed
qed

lemma numeric_ratings_Nil_iff:
  "numeric_ratings df = [] \<longleftrightarrow> (\<forall>r \<in> set df. \<forall>v. Rating r \<noteq> Num v)"
  by (induction df) (auto simp: numeric_ratings_def split: cell.splits)

lemma arithmetic_mean_None_iff: "arithmetic_mean vs = None \<longleftrightarrow> vs = []"
  by (simp add: arithmetic_mean_def)

lemma fst_model_means: "map fst (model_means df) = sort (unique (map Model df))"
  by (simp add: model_means_def o_def)

lemma length_model_means: "length (model_means df) = length (unique (map Model df))"
  by (simp add: model_means_def)

lemma in_model_means:
  "(m, v) \<in> set (model_means df) \<longleftrightarrow>
     m \<in> Model ` set df \<and> v = arithmetic_mean (numeric_ratings (filter (\<lambda>r. Model r = m) df))"
  by (auto simp: model_means_eq set_unique)

lemma model_means_all_None_iff:
  "(\<forall>p \<in> set (model_means df). snd p = None) \<longleftrightarrow> numeric_ratings df = []"
proof
  assume a: "\<forall>p \<in> set (model_means df). snd p = None"
  show "numeric_ratings df = []"
    unfolding numeric_ratings_Nil_iff
  proof (intro ballI allI notI)
    fix r v assume r: "r \<in> set df" and v: "Rating r = Num v"
    let ?m = "Model r"
    have "(?m, arithmetic_mean (numeric_ratings (filter (\<lambda>q. Model q = ?m) df))) \<in> set (model_means df)"
      using r by (simp add: in_model_means)
    with a have "numeric_ratings (filter (\<lambda>q. Model q = ?m) df) = []"
      by (fastforce simp: arithmetic_mean_None_iff)
    with r v show False by (simp add: numeric_ratings_Nil_iff)
  qed
next
  assume "numeric_ratings df = []"
  then have "numeric_ratings (filter (\<lambda>q. Model q = m) df) = []" for m
    by (simp add: numeric_ratings_Nil_iff)
  then show "\<forall>p \<in> set (model_means df). snd p = None"
    by (auto simp: in_model_means arithmetic_mean_None_iff)
qed

lemma series_extreme:
  assumes tr: "\<forall>a b c. better a b \<longrightarrow> better b c \<longrightarrow> better a c"
    and mx: "\<forall>a b c. \<not> better a b \<longrightarrow> better c b \<longrightarrow> better c a"
    and irr: "\<forall>a. \<not> better a a"
    and d: "distinct (map fst s)" and srt: "sorted (map fst s)"
    and ex: "\<exists>p \<in> set s. snd p \<noteq> None"
  shows "\<exists>b bv. map_option fst (scan_best better None s) = Some b
     \<and> getitem s (Some b) = Inr (Some bv) \<and> (b, Some bv) \<in> set s
     \<and> (\<forall>m v. (m, Some v) \<in> set s \<longrightarrow> \<not> better v bv \<and> (\<not> better bv v \<longrightarrow> b \<le> m))"
proof -
  from ex have "scan_best better None s \<noteq> None" by (simp add: scan_best_None_iff)
  then obtain b bv where sb: "scan_best better None s = Some (b, bv)" by fastforce
  from scan_best_decomp [OF tr mx sb]
  obtain pre post where x: "s = pre @ (b, Some bv) # post"
      and pr: "\<forall>p \<in> set pre. \<forall>w. snd p = Some w \<longrightarrow> better bv w"
      and po: "\<forall>p \<in> set post. \<forall>w. snd p = Some w \<longrightarrow> \<not> better w bv" by blast
  have mem: "(b, Some bv) \<in> set s" by (simp add: x)
  with d have g: "getitem s (Some b) = Inr (Some bv)" by (simp add: getitem_def)
  have post_keys: "\<forall>p \<in> set post. b \<le> fst p"
    using srt by (auto simp: x sorted_append)
  have "\<not> better v bv \<and> (\<not> better bv v \<longrightarrow> b \<le> m)" if "(m, Some v) \<in> set s" for m v
  proof -
    from that consider "(m, Some v) \<in> set pre" | "(m, Some v) = (b, Some bv)" | "(m, Some v) \<in> set post"
      by (auto simp: x)
    then show ?thesis
    proof cases
      case 1
      with pr have b1: "better bv v" by fastforce
      have "\<not> better v bv"
      proof
        assume "better v bv"
        with tr b1 irr show False by blast
      qed
      with b1 show ?thesis by simp
    next
      case 2
      then show ?thesis by (simp add: irr)
    next
      case 3
      with po post_keys show ?thesis by fastforce
    qed
  qed
  with sb g mem show ?thesis by auto
qed

lemma idxmax_series:
  assumes "distinct (map fst s)" "sorted (map fst s)" "\<exists>p \<in> set s. snd p \<noteq> None"
  shows "\<exists>b bv. idxmax s = Some b \<and> getitem s (Some b) = Inr (Some bv) \<and> (b, Some bv) \<in> set s
     \<and> (\<forall>m v. (m, Some v) \<in> set s \<longrightarrow> v \<le> bv \<and> (v = bv \<longrightarrow> b \<le> m))"
proof -
  have "\<exists>b bv. map_option fst (scan_best (\<lambda>v b. b < v) None s) = Some b
     \<and> getitem s (Some b) = Inr (Some bv) \<and> (b, Some bv) \<in> set s
     \<and> (\<forall>m v. (m, Some v) \<in> set s \<longrightarrow> \<not> bv < v \<and> (\<not> v < bv \<longrightarrow> b \<le> m))"
    by (rule series_extreme) (use assms in auto)
  then show ?thesis unfolding idxmax_def by (fastforce simp: not_less)
qed

lemma idxmin_series:
  assumes "distinct (map fst s)" "sorted (map fst s)" "\<exists>p \<in> set s. snd p \<noteq> None"
  shows "\<exists>b bv. idxmin s = Some b \<and> getitem s (Some b) = Inr (Some bv) \<and> (b, Some bv) \<in> set s
     \<and> (\<forall>m v. (m, Some v) \<in> set s \<longrightarrow> bv \<le> v \<and> (v = bv \<longrightarrow> b \<le> m))"
proof -
  have "\<exists>b bv. map_option fst (scan_best (\<lambda>v b. v < b) None s) = Some b
     \<and> getitem s (Some b) = Inr (Some bv) \<and> (b, Some bv) \<in> set s
     \<and> (\<forall>m v. (m, Some v) \<in> set s \<longrightarrow> \<not> v < bv \<and> (\<not> bv < v \<longrightarrow> b \<le> m))"
    by (rule series_extreme) (use assms in auto)
  then show ?thesis unfolding idxmin_def by (fastforce simp: not_less)
qed

lemma series_all_NaN:
  assumes "\<forall>p \<in> set s. snd p = None"
  shows "getitem s (idxmax s) = Inl KeyError"
  using assms by (simp add: idxmax_def getitem_def scan_best_None_iff [THEN iffD2])

lemma make_title_coerce: "make_title (coerce_ratings df) mk md = make_title df mk md"
  by (simp add: make_title_def Let_def filter_Make_coerce filter_Model_coerce ratings_coerce
      model_means_coerce split: sum.split)

lemma scatter_args_coerce: "scatter_args mk i (k, coerce_ratings g) = scatter_args mk i (k, g)"
  by (simp add: scatter_args_def Let_def coerce_ratings_def num_val_to_numeric o_def)

lemma groupby_coerce:
  "groupby_make_model (coerce_ratings df) = map (\<lambda>(k, g). (k, coerce_ratings g)) (groupby_make_model df)"
  by (simp add: groupby_make_model_def group_keys_coerce filter_key_coerce)

lemma enumerate_map: "enumerate n (map f xs) = map (\<lambda>(i, a). (i, f a)) (enumerate n xs)"
  by (induction xs arbitrary: n) simp_all

lemma all_traces_coerce: "all_traces (coerce_ratings df) mk = all_traces df mk"
  by (simp add: all_traces_def groupby_coerce enumerate_map o_def split_def scatter_args_coerce)

lemma make_title_All: "make_title df ''All'' md = Inr Static_Title"
  by (simp add: make_title_def)

lemma make_title_model:
  "mk \<noteq> ''All'' \<Longrightarrow> md \<noteq> ''All'' \<Longrightarrow>
   make_title df mk md = Inr (Model_Title mk md (arithmetic_mean (numeric_ratings (selected_rows df mk md))))"
  by (simp add: make_title_def Let_def mean_ratings selected_rows_def brand_rows_def)

lemma make_title_single:
  "mk \<noteq> ''All'' \<Longrightarrow> length (models_of df mk) \<le> 1 \<Longrightarrow>
   make_title df mk ''All'' = Inr (Make_Title mk (arithmetic_mean (numeric_ratings (brand_rows df mk))))"
  by (simp add: make_title_def Let_def mean_ratings brand_rows_def models_of_def length_model_means)

lemma make_title_raises:
  assumes "title_raises df mk md"
  shows "make_title df mk md = Inl KeyError"
proof -
  from assms have mk: "mk \<noteq> ''All''" and md: "md = ''All''"
    and n: "1 < length (models_of df mk)" and e: "numeric_ratings (brand_rows df mk) = []"
    by (simp_all add: title_raises_def)
  from e have "\<forall>p \<in> set (model_means (brand_rows df mk)). snd p = None"
    by (simp add: model_means_all_None_iff)
  then have "getitem (model_means (brand_rows df mk)) (idxmax (model_means (brand_rows df mk))) = Inl KeyError"
    by (rule series_all_NaN)
  with mk md n show ?thesis
    by (simp add: make_title_def Let_def brand_rows_def models_of_def length_model_means)
qed

lemma model_means_keys:
  "distinct (map fst (model_means df))" "sorted (map fst (model_means df))"
  by (simp_all add: fst_model_means distinct_unique)

lemma make_title_best_worst:
  assumes mk: "mk \<noteq> ''All''" and n: "1 < length (models_of df mk)"
    and e: "numeric_ratings (brand_rows df mk) \<noteq> []"
  shows "\<exists>b bv w wv.
     make_title df mk ''All'' = Inr (Best_Worst_Title mk
        (arithmetic_mean (numeric_ratings (brand_rows df mk))) b (Some bv) w (Some wv))
     \<and> b \<in> set (models_of df mk) \<and> model_mean df mk b = Some bv
     \<and> w \<in> set (models_of df mk) \<and> model_mean df mk w = Some wv
     \<and> (\<forall>m \<in> set (models_of df mk). \<forall>v. model_mean df mk m = Some v \<longrightarrow>
           v \<le> bv \<and> (v = bv \<longrightarrow> b \<le> m) \<and> wv \<le> v \<and> (v = wv \<longrightarrow> w \<le> m))"
proof -
  let ?s = "model_means (brand_rows df mk)"
  from e have ex: "\<exists>p \<in> set ?s. snd p \<noteq> None"
    using model_means_all_None_iff [of "brand_rows df mk"] by blast
  from idxmax_series [OF model_means_keys ex]
  obtain b bv where b: "idxmax ?s = Some b" "getitem ?s (Some b) = Inr (Some bv)"
      "(b, Some bv) \<in> set ?s"
      "\<forall>m v. (m, Some v) \<in> set ?s \<longrightarrow> v \<le> bv \<and> (v = bv \<longrightarrow> b \<le> m)" by blast
  from idxmin_series [OF model_means_keys ex]
  obtain w wv where w: "idxmin ?s = Some w" "getitem ?s (Some w) = Inr (Some wv)"
      "(w, Some wv) \<in> set ?s"
      "\<forall>m v. (m, Some v) \<in> set ?s \<longrightarrow> wv \<le> v \<and> (v = wv \<longrightarrow> w \<le> m)" by blast
  have mem: "(m, v) \<in> set ?s \<longleftrightarrow> m \<in> set (models_of df mk) \<and> model_mean df mk m = v" for m v
    by (auto simp: in_model_means models_of_def set_unique model_mean_def)
  have t: "make_title df mk ''All'' = Inr (Best_Worst_Title mk
        (arithmetic_mean (numeric_ratings (brand_rows df mk))) b (Some bv) w (Some wv))"
    using mk n b(1,2) w(1,2)
    by (simp add: make_title_def Let_def brand_rows_def [symmetric] models_of_def
        length_model_means mean_ratings label_text_def)
  have "\<forall>m \<in> set (models_of df mk). \<forall>v. model_mean df mk m = Some v \<longrightarrow>
           v \<le> bv \<and> (v = bv \<longrightarrow> b \<le> m) \<and> wv \<le> v \<and> (v = wv \<longrightarrow> w \<le> m)"
    using b(4) w(4) by (simp add: mem)
  with t b(3) w(3) show ?thesis by (simp add: mem)
qed

lemma length_unique: "length (unique xs) = card (set xs)"
  using distinct_card [OF distinct_unique, of xs] by (simp add: set_unique)

lemma set_group_keys: "set (group_keys df) = (\<lambda>r. (Make r, Model r)) ` set df"
  by (simp add: group_keys_def set_unique)

lemma distinct_group_keys: "distinct (group_keys df)"
  by (simp add: group_keys_def distinct_unique)

lemma sorted_group_keys: "sorted (group_keys df)"
  by (simp add: group_keys_def)

lemma length_group_keys: "length (group_keys df) = card ((\<lambda>r. (Make r, Model r)) ` set df)"
  by (simp add: group_keys_def length_unique)

lemma map_all_traces:
  "map f (all_traces df mk) =
     map (\<lambda>(i, g). f (scatter_args mk i g)) (enumerate 0 (groupby_make_model df))"
  by (simp add: all_traces_def o_def split_def)

lemma map_enumerate_snd: "map (\<lambda>(i, g). h g) (enumerate n xs) = map h xs"
  by (induction xs arbitrary: n) simp_all

lemma length_all_traces: "length (all_traces df mk) = length (group_keys df)"
  by (simp add: all_traces_def groupby_make_model_def)

lemma fillna_mul_ratings:
  "mul 3 (fillna 5 (map (num_val \<circ> Rating) g)) = map (\<lambda>r. Some (size_of_cell (Rating r))) g"
  by (induction g) (simp_all add: mul_def fillna_def size_of_cell_def split: cell.splits)

lemma scatter_args_fields:
  "name (scatter_args mk i g) = series_name (fst g)"
  "showlegend (scatter_args mk i g) = (mk = ''All'' \<or> fst (fst g) = mk)"
  "visible (scatter_args mk i g) = (if mk = ''All'' \<or> fst (fst g) = mk then Visible else LegendOnly)"
  "marker_size (scatter_args mk i g) = map (\<lambda>r. Some (size_of_cell (Rating r))) (snd g)"
  "y_values (scatter_args mk i g) = map (\<lambda>r. num_val (Rating r)) (snd g)"
  by (simp_all add: scatter_args_def Let_def fillna_mul_ratings)

lemma names_all_traces: "map name (all_traces df mk) = map series_name (group_keys df)"
  by (simp add: map_all_traces scatter_args_fields map_enumerate_snd
      groupby_make_model_def o_def)

lemma showlegend_all_traces:
  "map showlegend (all_traces df mk) = map (\<lambda>k. mk = ''All'' \<or> fst k = mk) (group_keys df)"
  by (simp add: map_all_traces scatter_args_fields map_enumerate_snd
      groupby_make_model_def o_def)

lemma visible_all_traces:
  "map visible (all_traces df mk) =
     map (\<lambda>k. if mk = ''All'' \<or> fst k = mk then Visible else LegendOnly) (group_keys df)"
  by (simp add: map_all_traces scatter_args_fields map_enumerate_snd
      groupby_make_model_def o_def)

lemma marker_size_all_traces:
  "map marker_size (all_traces df mk) =
     map (\<lambda>g. map (\<lambda>r. Some (size_of_cell (Rating r))) (snd g)) (groupby_make_model df)"
  by (simp add: map_all_traces scatter_args_fields map_enumerate_snd)

lemma y_values_all_traces:
  "map y_values (all_traces df mk) =
     map (\<lambda>g. map (\<lambda>r. num_val (Rating r)) (snd g)) (groupby_make_model df)"
  by (simp add: map_all_traces scatter_args_fields map_enumerate_snd)

lemma make_title_total:
  assumes "\<not> title_raises df mk md"
  shows "\<exists>t. make_title df mk md = Inr t"
proof (cases "mk = ''All''")
  case True
  then show ?thesis by (simp add: make_title_All)
next
  case mk: False
  show ?thesis
  proof (cases "md = ''All''")
    case False
    with mk show ?thesis by (simp add: make_title_model)
  next
    case md: True
    show ?thesis
    proof (cases "length (models_of df mk) \<le> 1")
      case True
      with mk md show ?thesis by (simp add: make_title_single)
    next
      case False
      with assms mk md have "1 < length (models_of df mk)" "numeric_ratings (brand_rows df mk) \<noteq> []"
        by (simp_all add: title_raises_def)
      from make_title_best_worst [OF mk this] md show ?thesis by blast
    qed
  qed
qed

lemma shown_mean_make_title:
  assumes "make_title df mk md = Inr t"
  shows "shown_mean t =
     (if mk = ''All'' then None
      else Some (arithmetic_mean (numeric_ratings (selected_rows df mk md))))"
proof (cases "mk = ''All''")
  case True
  with assms show ?thesis by (auto simp: make_title_All)
next
  case mk: False
  show ?thesis
  proof (cases "md = ''All''")
    case False
    with mk assms show ?thesis by (auto simp: make_title_model)
  next
    case md: True
    show ?thesis
    proof (cases "length (models_of df mk) \<le> 1")
      case True
      with mk md assms show ?thesis by (auto simp: make_title_single selected_rows_def)
    next
      case n: False
      show ?thesis
      proof (cases "numeric_ratings (brand_rows df mk) = []")
        case True
        with mk md n have "title_raises df mk md" by (simp add: title_raises_def)
        from make_title_raises [OF this] assms show ?thesis by simp
      next
        case False
        from n have "1 < length (models_of df mk)" by simp
        from make_title_best_worst [OF mk this False] md assms mk show ?thesis
          by (auto simp: selected_rows_def)
      qed
    qed
  qed
qed

lemma has_negative_rating_iff:
  "has_negative_rating df \<longleftrightarrow> (\<exists>r \<in> set df. \<exists>v. Rating r = Num v \<and> v < 0)"
  by (induction df) (auto simp: has_negative_rating_def numeric_ratings_def split: cell.splits)

lemma has_negative_rating_coerce:
  "has_negative_rating (coerce_ratings df) = has_negative_rating df"
proof -
  have "numeric_ratings (coerce_ratings df) = numeric_ratings df"
    by (simp add: map_filter_ratings [symmetric] ratings_coerce)
  then show ?thesis by (simp add: has_negative_rating_def)
qed

lemma negative_size_cell:
  "negative_size (Some (size_of_cell c)) \<longleftrightarrow> (\<exists>v. c = Num v \<and> v < 0)"
  by (cases c) (simp_all add: negative_size_def size_of_cell_def mult_less_0_iff)

lemma make_trace_eq:
  "make_trace mk i g =
     (if has_negative_rating (snd g) then Inl ValueError else Inr (scatter_args mk i g))"
  by (simp add: make_trace_def go_Scatter_def scatter_args_fields list_ex_iff
      negative_size_cell has_negative_rating_iff)

lemma add_traces_eq:
  "add_traces mk xs =
     (if \<exists>p \<in> set xs. has_negative_rating (snd (snd p)) then Inl ValueError
      else Inr (map (\<lambda>(i, g). scatter_args mk i g) xs))"
proof (induction xs)
  case Nil
  show ?case by simp
next
  case (Cons p xs)
  obtain i g where p: "p = (i, g)" by (cases p)
  show ?case by (simp add: p Cons.IH make_trace_eq)
qed

lemma groups_negative:
  "(\<exists>p \<in> set (enumerate n (groupby_make_model df)). has_negative_rating (snd (snd p)))
     \<longleftrightarrow> has_negative_rating df"
proof -
  have "(\<exists>p \<in> set (enumerate n (groupby_make_model df)). has_negative_rating (snd (snd p)))
      \<longleftrightarrow> (\<exists>g \<in> set (map snd (enumerate n (groupby_make_model df))). has_negative_rating (snd g))"
    by (simp del: map_snd_enumerate)
  also have "\<dots> \<longleftrightarrow> (\<exists>k \<in> set (group_keys df).
      has_negative_rating (filter (\<lambda>r. (Make r, Model r) = k) df))"
    by (simp add: groupby_make_model_def)
  also have "\<dots> \<longleftrightarrow> has_negative_rating df"
    by (auto simp: has_negative_rating_iff set_group_keys)
  finally show ?thesis .
qed

lemma build_traces_eq:
  "build_traces df mk = (if has_negative_rating df then Inl ValueError else Inr (all_traces df mk))"
  by (simp add: build_traces_def add_traces_eq groups_negative all_traces_def)

lemma create_eq:
  "create_car_ratings_plot df mk md =
     (if has_negative_rating df then Inl ValueError
      else (case make_title df mk md of Inl e \<Rightarrow> Inl e
            | Inr t \<Rightarrow> Inr \<lparr>data = all_traces df mk, layout_title = t\<rparr>),
      coerce_ratings df)"
  by (simp add: create_car_ratings_plot_def Let_def build_traces_eq has_negative_rating_coerce
      make_title_coerce all_traces_coerce split: sum.split)

lemma returned_create:
  "returned (create_car_ratings_plot df mk md) =
     (if has_negative_rating df then Inl ValueError
      else (case make_title df mk md of Inl e \<Rightarrow> Inl e
            | Inr t \<Rightarrow> Inr \<lparr>data = all_traces df mk, layout_title = t\<rparr>))"
  by (simp add: returned_def create_eq)

lemma returned_update_figure:
  "returned (update_figure df mk md) =
     (if has_negative_rating df then Inl ValueError
      else (case make_title df mk md of Inl e \<Rightarrow> Inl e
            | Inr t \<Rightarrow> Inr \<lparr>data = (if md \<noteq> ''All''
                                     then map (hide_unless_named md) (all_traces df mk)
                                     else all_traces df mk),
                            layout_title = t\<rparr>))"
  by (simp add: returned_def update_figure_def create_eq split: sum.split)

lemma frame_after_create: "frame_after (create_car_ratings_plot df mk md) = coerce_ratings df"
  by (simp add: frame_after_def create_eq)

lemma frame_after_update_figure: "frame_after (update_figure df mk md) = coerce_ratings df"
  by (simp add: frame_after_def update_figure_def create_eq split: sum.split)

lemma not_plot_raises:
  "\<not> plot_raises df mk md \<longleftrightarrow> \<not> has_negative_rating df \<and> \<not> title_raises df mk md"
  by (simp add: plot_raises_def)

lemma unemphasized_scatter_args: "unemphasized (scatter_args mk i g) = scatter_args ''All'' i g"
  by (simp add: unemphasized_def scatter_args_def Let_def)

lemma unemphasized_hide: "unemphasized (hide_unless_named md t) = unemphasized t"
  by (simp add: unemphasized_def hide_unless_named_def)

lemma unemphasized_all_traces: "map unemphasized (all_traces df mk) = all_traces df ''All''"
  by (simp add: all_traces_def o_def split_def unemphasized_scatter_args)

lemma data_update_figure:
  assumes "\<not> has_negative_rating df" and "make_title df mk md = Inr t"
  shows "\<exists>fig. returned (update_figure df mk md) = Inr fig \<and> layout_title fig = t \<and>
     data fig = (if md \<noteq> ''All'' then map (hide_unless_named md) (all_traces df mk)
                else all_traces df mk)"
  using assms by (simp add: returned_update_figure)

lemma filter_by_maps:
  "map g ts = map f ks \<Longrightarrow> map s ts = map p ks \<Longrightarrow> map g (filter s ts) = map f (filter p ks)"
proof (induction ts arbitrary: ks)
  case Nil
  then show ?case by simp
next
  case (Cons t ts)
  then obtain k ks' where ks: "ks = k # ks'" by (cases ks) auto
  with Cons show ?case by auto
qed

lemma hide_fields:
  "name (hide_unless_named md t) = name t"
  "showlegend (hide_unless_named md t) = showlegend t"
  "visible (hide_unless_named md t) =
     (if sublist md (name t) then visible t else LegendOnly)"
  by (simp_all add: hide_unless_named_def)

lemma nth_all_traces:
  assumes "i < length (group_keys df)"
  shows "name (all_traces df mk ! i) = series_name (group_keys df ! i)"
    and "showlegend (all_traces df mk ! i) = (mk = ''All'' \<or> fst (group_keys df ! i) = mk)"
    and "visible (all_traces df mk ! i) =
          (if mk = ''All'' \<or> fst (group_keys df ! i) = mk then Visible else LegendOnly)"
proof -
  have n: "i < length (all_traces df mk)" using assms by (simp add: length_all_traces)
  have "map name (all_traces df mk) ! i = map series_name (group_keys df) ! i"
    by (simp only: names_all_traces)
  then show "name (all_traces df mk ! i) = series_name (group_keys df ! i)"
    using n assms by simp
  have "map showlegend (all_traces df mk) ! i
      = map (\<lambda>k. mk = ''All'' \<or> fst k = mk) (group_keys df) ! i"
    by (simp only: showlegend_all_traces)
  then show "showlegend (all_traces df mk ! i) = (mk = ''All'' \<or> fst (group_keys df ! i) = mk)"
    using n assms by simp
  have "map visible (all_traces df mk) ! i
      = map (\<lambda>k. if mk = ''All'' \<or> fst k = mk then Visible else LegendOnly) (group_keys df) ! i"
    by (simp only: visible_all_traces)
  then show "visible (all_traces df mk ! i) =
          (if mk = ''All'' \<or> fst (group_keys df ! i) = mk then Visible else LegendOnly)"
    using n assms by simp
qed

lemma title_of_create:
  "\<not> has_negative_rating df \<Longrightarrow> title_of (create_car_ratings_plot df mk md) = make_title df mk md"
  by (simp add: title_of_def returned_create split: sum.split)

lemma map_all_traces_group:
  assumes "\<And>i g. f (scatter_args mk i g) = h g"
  shows "map f (all_traces df mk) = map h (groupby_make_model df)"
  by (simp add: map_all_traces assms map_enumerate_snd)

lemma visibility_of_update_figure:
  assumes "md \<noteq> ''All''" and nn: "\<not> has_negative_rating df"
  shows "visibility_of (update_figure df mk md) =
     Inr (map (\<lambda>k. (series_name k,
                 if (mk = ''All'' \<or> fst k = mk) \<and> sublist md (series_name k)
                 then Visible else LegendOnly)) (group_keys df))"
proof -
  have "\<not> title_raises df mk md" using assms by (simp add: title_raises_def)
  from make_title_total [OF this] obtain t where t: "make_title df mk md = Inr t" ..
  have "map (\<lambda>t. (name (hide_unless_named md t), visible (hide_unless_named md t)))
          (all_traces df mk) =
     map (\<lambda>g. (series_name (fst g),
                 if (mk = ''All'' \<or> fst (fst g) = mk) \<and> sublist md (series_name (fst g))
                 then Visible else LegendOnly)) (groupby_make_model df)"
    by (rule map_all_traces_group) (simp add: hide_fields scatter_args_fields)
  then have "map (\<lambda>t. (name t, visible t)) (map (hide_unless_named md) (all_traces df mk)) =
     map (\<lambda>k. (series_name k,
                 if (mk = ''All'' \<or> fst k = mk) \<and> sublist md (series_name k)
                 then Visible else LegendOnly)) (group_keys df)"
    by (simp add: o_def groupby_make_model_def)
  with assms t show ?thesis
    by (simp add: visibility_of_def returned_update_figure)
qed

lemma create_raises_iff:
  "returned (create_car_ratings_plot df mk md) =
     (if has_negative_rating df then Inl ValueError
      else if title_raises df mk md then Inl KeyError
      else Inr \<lparr>data = all_traces df mk,
                 layout_title = (case make_title df mk md of Inr t \<Rightarrow> t | Inl e \<Rightarrow> Static_Title)\<rparr>)"
proof (cases "title_raises df mk md")
  case True
  from make_title_raises [OF this] True show ?thesis by (simp add: returned_create)
next
  case False
  from make_title_total [OF this] obtain t where "make_title df mk md = Inr t" ..
  with False show ?thesis by (simp add: returned_create)
qed

lemma negative_rating_raises:
  "has_negative_rating df \<Longrightarrow>
     returned (create_car_ratings_plot df mk md) = Inl ValueError \<and>
     returned (update_figure df mk md) = Inl ValueError"
  by (simp add: returned_create returned_update_figure)

lemma negative_rating_raises_example:
  "returned (create_car_ratings_plot
       [\<lparr>Make = ''Toyota'', Model = ''Corolla'', Year = 2020, Rating = Num (- 5 / 2)\<rparr>,
        \<lparr>Make = ''Toyota'', Model = ''Corolla'', Year = 2021, Rating = Num 10\<rparr>]
       ''Toyota'' ''Corolla'') = Inl ValueError"
  by code_simp

lemma create_returns_iff:
  "(\<exists>fig. returned (create_car_ratings_plot df mk md) = Inr fig) \<longleftrightarrow> \<not> plot_raises df mk md"
  by (simp add: create_raises_iff plot_raises_def)

section \<open>The properties\<close>

text \<open>
  The chart is built exactly when \<open>plot_raises\<close> does not hold: no rating of the dataset
  is negative, and the selection is not a make with several models and no numeric
  rating, taken without a model. The properties of the chart are stated for these
  calls.
\<close>

text \<open>
  C1. Whenever the chart is built, the mean in its title is the arithmetic mean of the
  numeric ratings of the rows the selection filters to (the rows of the make, and of
  the model when one is chosen); rows without a numeric rating do not count. With no
  make chosen the title shows no mean. For the rows (Toyota, Corolla, 2020, 8.0) and
  (Toyota, Corolla, 2021, missing) the selection Toyota/Corolla shows the mean 8.
\<close>

theorem title_mean_is_arithmetic_mean:
  assumes "\<not> plot_raises df mk md"
  shows "\<exists>fig. returned (create_car_ratings_plot df mk md) = Inr fig \<and>
     shown_mean (layout_title fig) =
       (if mk = ''All'' then None
        else Some (arithmetic_mean (numeric_ratings (selected_rows df mk md))))"
proof -
  from assms have nn: "\<not> has_negative_rating df" and nt: "\<not> title_raises df mk md"
    by (simp_all add: plot_raises_def)
  from make_title_total [OF nt] obtain t where t: "make_title df mk md = Inr t" ..
  from shown_mean_make_title [OF t] t nn show ?thesis by (simp add: returned_create)
qed

theorem title_mean_is_arithmetic_mean_witness:
  "\<not> plot_raises
       [\<lparr>Make = ''Toyota'', Model = ''Corolla'', Year = 2020, Rating = Num 8\<rparr>,
        \<lparr>Make = ''Toyota'', Model = ''Corolla'', Year = 2021, Rating = Missing\<rparr>]
       ''Toyota'' ''Corolla''
   \<and> (\<exists>fig. returned (create_car_ratings_plot
       [\<lparr>Make = ''Toyota'', Model = ''Corolla'', Year = 2020, Rating = Num 8\<rparr>,
        \<lparr>Make = ''Toyota'', Model = ''Corolla'', Year = 2021, Rating = Missing\<rparr>]
       ''Toyota'' ''Corolla'') = Inr fig
     \<and> shown_mean (layout_title fig) = Some (Some 8))"
proof -
  let ?df = "[\<lparr>Make = ''Toyota'', Model = ''Corolla'', Year = 2020, Rating = Num 8\<rparr>,
        \<lparr>Make = ''Toyota'', Model = ''Corolla'', Year = 2021, Rating = Missing\<rparr>]"
  have h: "\<not> plot_raises ?df ''Toyota'' ''Corolla''"
    by (simp add: plot_raises_def title_raises_def has_negative_rating_def numeric_ratings_def)
  have m: "arithmetic_mean (numeric_ratings (selected_rows ?df ''Toyota'' ''Corolla'')) = Some 8"
    by (simp add: arithmetic_mean_def numeric_ratings_def selected_rows_def brand_rows_def)
  from title_mean_is_arithmetic_mean [OF h] h m show ?thesis by simp
qed

text \<open>
  C2. Whenever the chart is built, it has one trace for each distinct pair of make and
  model of the dataset, whatever the selection: up to the visibility state the traces
  are those of the chart with nothing selected.
\<close>

theorem series_count_independent_of_filter:
  assumes "\<not> plot_raises df mk md"
  shows "\<exists>built fig fig0.
     returned (create_car_ratings_plot df mk md) = Inr built \<and>
     returned (update_figure df mk md) = Inr fig \<and>
     returned (update_figure df ''All'' ''All'') = Inr fig0 \<and>
     length (data built) = card ((\<lambda>r. (Make r, Model r)) ` set df) \<and>
     length (data fig) = card ((\<lambda>r. (Make r, Model r)) ` set df) \<and>
     length (data fig0) = card ((\<lambda>r. (Make r, Model r)) ` set df) \<and>
     map unemphasized (data built) = data fig0 \<and>
     map unemphasized (data fig) = data fig0"
proof -
  from assms have nn: "\<not> has_negative_rating df" and nt: "\<not> title_raises df mk md"
    by (simp_all add: plot_raises_def)
  from make_title_total [OF nt] obtain t where t: "make_title df mk md = Inr t" ..
  define built where "built = \<lparr>data = all_traces df mk, layout_title = t\<rparr>"
  have built: "returned (create_car_ratings_plot df mk md) = Inr built"
    using t nn by (simp add: returned_create built_def)
  from data_update_figure [OF nn t] obtain fig where
    fig: "returned (update_figure df mk md) = Inr fig"
      "data fig = (if md \<noteq> ''All'' then map (hide_unless_named md) (all_traces df mk)
                else all_traces df mk)" by blast
  obtain fig0 where fig0: "returned (update_figure df ''All'' ''All'') = Inr fig0"
      "data fig0 = all_traces df ''All''"
    using nn by (simp add: returned_update_figure make_title_All)
  have "length (data built) = card ((\<lambda>r. (Make r, Model r)) ` set df)"
    by (simp add: built_def length_all_traces length_group_keys)
  moreover have "length (data fig) = card ((\<lambda>r. (Make r, Model r)) ` set df)"
    by (simp add: fig(2) length_all_traces length_group_keys)
  moreover have "length (data fig0) = card ((\<lambda>r. (Make r, Model r)) ` set df)"
    by (simp add: fig0(2) length_all_traces length_group_keys)
  moreover have "map unemphasized (data built) = data fig0"
    by (simp add: built_def fig0(2) unemphasized_all_traces)
  moreover have "map unemphasized (data fig) = data fig0"
    by (simp add: fig(2) fig0(2) o_def unemphasized_hide unemphasized_all_traces)
  ultimately show ?thesis using built fig(1) fig0(1) by (intro exI conjI)
qed

theorem series_count_independent_of_filter_witness:
  "\<not> plot_raises
       [\<lparr>Make = ''Toyota'', Model = ''Corolla'', Year = 2020, Rating = Num 8\<rparr>,
        \<lparr>Make = ''Honda'', Model = ''Civic'', Year = 2020, Rating = Num 7\<rparr>,
        \<lparr>Make = ''Toyota'', Model = ''Corolla'', Year = 2021, Rating = Missing\<rparr>]
       ''Toyota'' ''Corolla''
   \<and> (\<exists>built fig fig0.
       returned (create_car_ratings_plot
         [\<lparr>Make = ''Toyota'', Model = ''Corolla'', Year = 2020, Rating = Num 8\<rparr>,
          \<lparr>Make = ''Honda'', Model = ''Civic'', Year = 2020, Rating = Num 7\<rparr>,
          \<lparr>Make = ''Toyota'', Model = ''Corolla'', Year = 2021, Rating = Missing\<rparr>]
         ''Toyota'' ''Corolla'') = Inr built
     \<and> returned (update_figure
         [\<lparr>Make = ''Toyota'', Model = ''Corolla'', Year = 2020, Rating = Num 8\<rparr>,
          \<lparr>Make = ''Honda'', Model = ''Civic'', Year = 2020, Rating = Num 7\<rparr>,
          \<lparr>Make = ''Toyota'', Model = ''Corolla'', Year = 2021, Rating = Missing\<rparr>]
         ''Toyota'' ''Corolla'') = Inr fig
     \<and> returned (update_figure
         [\<lparr>Make = ''Toyota'', Model = ''Corolla'', Year = 2020, Rating = Num 8\<rparr>,
          \<lparr>Make = ''Honda'', Model = ''Civic'', Year = 2020, Rating = Num 7\<rparr>,
          \<lparr>Make = ''Toyota'', Model = ''Corolla'', Year = 2021, Rating = Missing\<rparr>]
         ''All'' ''All'') = Inr fig0
     \<and> length (data built) = 2 \<and> length (data fig) = 2 \<and> length (data fig0) = 2
     \<and> map unemphasized (data built) = data fig0
     \<and> map unemphasized (data fig) = data fig0)"
proof -
  let ?df = "[\<lparr>Make = ''Toyota'', Model = ''Corolla'', Year = 2020, Rating = Num 8\<rparr>,
        \<lparr>Make = ''Honda'', Model = ''Civic'', Year = 2020, Rating = Num 7\<rparr>,
        \<lparr>Make = ''Toyota'', Model = ''Corolla'', Year = 2021, Rating = Missing\<rparr>]"
  have h: "\<not> plot_raises ?df ''Toyota'' ''Corolla''"
    by (simp add: plot_raises_def title_raises_def has_negative_rating_def numeric_ratings_def)
  have c: "card ((\<lambda>r. (Make r, Model r)) ` set ?df) = 2"
    by (simp add: card_insert_if)
  from series_count_independent_of_filter [OF h] h c show ?thesis by simp
qed

text \<open>
  C3, amended. In every chart that is built, the marker size of each point is three
  times the rating of its row when the rating is a number and 15 otherwise: a missing
  rating is replaced by 5 before the multiplication by 3. No size of a built chart is
  negative. The claim's size 5 for a missing rating fails on a row without rating,
  whose marker has size 15.
\<close>

theorem marker_size_from_rating:
  assumes "\<not> plot_raises df mk md"
  shows "\<exists>fig. returned (create_car_ratings_plot df mk md) = Inr fig \<and>
     map marker_size (data fig) =
       map (\<lambda>g. map (\<lambda>r. Some (size_of_cell (Rating r))) (snd g)) (groupby_make_model df) \<and>
     map y_values (data fig) =
       map (\<lambda>g. map (\<lambda>r. num_val (Rating r)) (snd g)) (groupby_make_model df) \<and>
     (\<forall>r \<in> set df. 0 \<le> size_of_cell (Rating r))"
proof -
  from assms have nn: "\<not> has_negative_rating df" and nt: "\<not> title_raises df mk md"
    by (simp_all add: plot_raises_def)
  from make_title_total [OF nt] obtain t where t: "make_title df mk md = Inr t" ..
  have "0 \<le> size_of_cell (Rating r)" if "r \<in> set df" for r
    using nn that negative_size_cell [of "Rating r"]
    by (auto simp: has_negative_rating_iff negative_size_def not_less)
  with t nn show ?thesis
    by (simp add: returned_create marker_size_all_traces y_values_all_traces)
qed

theorem marker_size_from_rating_witness:
  "\<not> plot_raises
       [\<lparr>Make = ''Toyota'', Model = ''Corolla'', Year = 2020, Rating = Num 8\<rparr>,
        \<lparr>Make = ''Toyota'', Model = ''Corolla'', Year = 2021, Rating = Missing\<rparr>]
       ''All'' ''All''
   \<and> (\<exists>fig. returned (create_car_ratings_plot
       [\<lparr>Make = ''Toyota'', Model = ''Corolla'', Year = 2020, Rating = Num 8\<rparr>,
        \<lparr>Make = ''Toyota'', Model = ''Corolla'', Year = 2021, Rating = Missing\<rparr>]
       ''All'' ''All'') = Inr fig
     \<and> map marker_size (data fig) = [[Some 24, Some 15]]
     \<and> map y_values (data fig) = [[Some 8, None]])"
proof -
  let ?df = "[\<lparr>Make = ''Toyota'', Model = ''Corolla'', Year = 2020, Rating = Num 8\<rparr>,
        \<lparr>Make = ''Toyota'', Model = ''Corolla'', Year = 2021, Rating = Missing\<rparr>]"
  have h: "\<not> plot_raises ?df ''All'' ''All''"
    by (simp add: plot_raises_def title_raises_def has_negative_rating_def numeric_ratings_def)
  have g: "groupby_make_model ?df = [((''Toyota'', ''Corolla''), ?df)]"
    by (simp add: groupby_make_model_def group_keys_def)
  from marker_size_from_rating [OF h] h show ?thesis
    by (simp add: g size_of_cell_def)
qed

text \<open>C3, the counterexample: one row with a missing rating.\<close>

theorem marker_size_missing_counterexample:
  "marker_sizes_of (create_car_ratings_plot
       [\<lparr>Make = ''Toyota'', Model = ''Corolla'', Year = 2021, Rating = Missing\<rparr>]
       ''All'' ''All'') = Inr [[Some 15]]"
  by (simp add: marker_sizes_of_def returned_create has_negative_rating_def numeric_ratings_def
      make_title_All all_traces_def groupby_make_model_def group_keys_def
      scatter_args_def Let_def mul_def fillna_def)

text \<open>
  C4, amended. In every chart that is built, the traces of the makes other than the
  selected one stay in the chart, set to legend-only and taken off the legend: the
  legend lists exactly the series of the selected make, and all series when no make is
  selected. The legend is therefore not the same for every selection.
\<close>

theorem other_makes_hidden_and_off_legend:
  assumes "\<not> plot_raises df mk md"
  shows "\<exists>fig. returned (update_figure df mk md) = Inr fig
     \<and> map name (data fig) = map series_name (group_keys df)
     \<and> (\<forall>i < length (group_keys df). mk \<noteq> ''All'' \<and> fst (group_keys df ! i) \<noteq> mk \<longrightarrow>
           visible (data fig ! i) = LegendOnly \<and> \<not> showlegend (data fig ! i))
     \<and> legend_entries fig =
           map series_name (filter (\<lambda>k. mk = ''All'' \<or> fst k = mk) (group_keys df))"
proof -
  from assms have nn: "\<not> has_negative_rating df" and nt: "\<not> title_raises df mk md"
    by (simp_all add: plot_raises_def)
  from make_title_total [OF nt] obtain t where t: "make_title df mk md = Inr t" ..
  from data_update_figure [OF nn t] obtain fig where
    fig: "returned (update_figure df mk md) = Inr fig"
      "data fig = (if md \<noteq> ''All'' then map (hide_unless_named md) (all_traces df mk)
                else all_traces df mk)" by blast
  have nm: "map name (data fig) = map series_name (group_keys df)"
    by (simp add: fig(2) o_def hide_fields names_all_traces)
  have sl: "map showlegend (data fig) = map (\<lambda>k. mk = ''All'' \<or> fst k = mk) (group_keys df)"
    by (simp add: fig(2) o_def hide_fields showlegend_all_traces)
  have "legend_entries fig =
           map series_name (filter (\<lambda>k. mk = ''All'' \<or> fst k = mk) (group_keys df))"
    unfolding legend_entries_def by (rule filter_by_maps [OF nm sl])
  moreover have "visible (data fig ! i) = LegendOnly \<and> \<not> showlegend (data fig ! i)"
    if "i < length (group_keys df)" "mk \<noteq> ''All'' \<and> fst (group_keys df ! i) \<noteq> mk" for i
    using that nth_all_traces [OF that(1), of mk]
    by (simp add: fig(2) hide_fields length_all_traces)
  ultimately show ?thesis using fig(1) nm by blast
qed

theorem other_makes_hidden_and_off_legend_witness:
  "\<not> plot_raises
       [\<lparr>Make = ''Toyota'', Model = ''Corolla'', Year = 2020, Rating = Num 8\<rparr>,
        \<lparr>Make = ''Honda'', Model = ''Civic'', Year = 2020, Rating = Num 7\<rparr>]
       ''Toyota'' ''All''
   \<and> (\<exists>fig. returned (update_figure
         [\<lparr>Make = ''Toyota'', Model = ''Corolla'', Year = 2020, Rating = Num 8\<rparr>,
          \<lparr>Make = ''Honda'', Model = ''Civic'', Year = 2020, Rating = Num 7\<rparr>]
         ''Toyota'' ''All'') = Inr fig
     \<and> map name (data fig) = [''Honda - Civic'', ''Toyota - Corolla'']
     \<and> visible (data fig ! 0) = LegendOnly \<and> \<not> showlegend (data fig ! 0)
     \<and> legend_entries fig = [''Toyota - Corolla''])"
proof -
  let ?df = "[\<lparr>Make = ''Toyota'', Model = ''Corolla'', Year = 2020, Rating = Num 8\<rparr>,
        \<lparr>Make = ''Honda'', Model = ''Civic'', Year = 2020, Rating = Num 7\<rparr>]"
  have h: "\<not> plot_raises ?df ''Toyota'' ''All''"
    by (simp add: plot_raises_def title_raises_def models_of_def brand_rows_def
        has_negative_rating_def numeric_ratings_def)
  have g: "group_keys ?df = [(''Honda'', ''Civic''), (''Toyota'', ''Corolla'')]"
    by (simp add: group_keys_def)
  from other_makes_hidden_and_off_legend [OF h] obtain fig where
    f: "returned (update_figure ?df ''Toyota'' ''All'') = Inr fig"
      "map name (data fig) = map series_name (group_keys ?df)"
      "\<forall>i < length (group_keys ?df). ''Toyota'' \<noteq> ''All'' \<and> fst (group_keys ?df ! i) \<noteq> ''Toyota'' \<longrightarrow>
           visible (data fig ! i) = LegendOnly \<and> \<not> showlegend (data fig ! i)"
      "legend_entries fig =
           map series_name (filter (\<lambda>k. ''Toyota'' = ''All'' \<or> fst k = ''Toyota'') (group_keys ?df))"
    by blast
  from f(3) have "visible (data fig ! 0) = LegendOnly \<and> \<not> showlegend (data fig ! 0)"
    by (simp add: g)
  with f(1,2,4) h show ?thesis by (simp add: g series_name_def)
qed

text \<open>C4, the counterexample: with two makes, selecting one shortens the legend.\<close>

theorem legend_changes_with_make_counterexample:
  "legend_of (update_figure
       [\<lparr>Make = ''Toyota'', Model = ''Corolla'', Year = 2020, Rating = Num 8\<rparr>,
        \<lparr>Make = ''Honda'', Model = ''Civic'', Year = 2020, Rating = Num 7\<rparr>]
       ''Toyota'' ''All'') = Inr [''Toyota - Corolla'']
   \<and> legend_of (update_figure
       [\<lparr>Make = ''Toyota'', Model = ''Corolla'', Year = 2020, Rating = Num 8\<rparr>,
        \<lparr>Make = ''Honda'', Model = ''Civic'', Year = 2020, Rating = Num 7\<rparr>]
       ''All'' ''All'') = Inr [''Honda - Civic'', ''Toyota - Corolla'']"
proof -
  let ?df = "[\<lparr>Make = ''Toyota'', Model = ''Corolla'', Year = 2020, Rating = Num 8\<rparr>,
        \<lparr>Make = ''Honda'', Model = ''Civic'', Year = 2020, Rating = Num 7\<rparr>]"
  have nn: "\<not> has_negative_rating ?df"
    by (simp add: has_negative_rating_def numeric_ratings_def)
  have g: "groupby_make_model ?df =
     [((''Honda'', ''Civic''), [\<lparr>Make = ''Honda'', Model = ''Civic'', Year = 2020, Rating = Num 7\<rparr>]),
      ((''Toyota'', ''Corolla''), [\<lparr>Make = ''Toyota'', Model = ''Corolla'', Year = 2020, Rating = Num 8\<rparr>])]"
    by (simp add: groupby_make_model_def group_keys_def)
  have t: "make_title ?df ''Toyota'' ''All'' = Inr (Make_Title ''Toyota'' (Some 8))"
    by (simp add: make_title_def Let_def model_means_def mean_def List.map_filter_simps)
  show ?thesis
    by (simp add: legend_of_def returned_update_figure nn t make_title_All legend_entries_def
        all_traces_def g scatter_args_def Let_def series_name_def)
qed

text \<open>
  C5, amended. The model options are \<^verbatim>\<open>All\<close> followed by the models of the rows of
  the selected make (of all rows when the make is \<^verbatim>\<open>All\<close>), sorted and without
  duplicates among them. The list as a whole has no duplicates exactly when none of
  these models is itself named \<^verbatim>\<open>All\<close>.
\<close>

theorem model_options_All_then_sorted_models:
  "\<exists>ms. fst (fst (update_model_dropdown df mk)) = map (\<lambda>m. \<lparr>label = m, value = m\<rparr>) (''All'' # ms)
     \<and> model_options (update_model_dropdown df mk) = ''All'' # ms
     \<and> sorted ms \<and> distinct ms
     \<and> set ms = Model ` {r \<in> set df. mk = ''All'' \<or> Make r = mk}
     \<and> (distinct (model_options (update_model_dropdown df mk))
          \<longleftrightarrow> ''All'' \<notin> Model ` {r \<in> set df. mk = ''All'' \<or> Make r = mk})"
proof -
  define ms where "ms = sort (unique (map Model (if mk = ''All'' then df
      else filter (\<lambda>r. Make r = mk) df)))"
  have o: "fst (fst (update_model_dropdown df mk)) = map (\<lambda>m. \<lparr>label = m, value = m\<rparr>) (''All'' # ms)"
    by (simp add: update_model_dropdown_def ms_def)
  then have v: "model_options (update_model_dropdown df mk) = ''All'' # ms"
    by (simp add: model_options_def o_def)
  have sd: "sorted ms \<and> distinct ms" by (simp add: ms_def distinct_unique)
  have st: "set ms = Model ` {r \<in> set df. mk = ''All'' \<or> Make r = mk}"
    by (cases "mk = ''All''") (simp_all add: ms_def set_unique)
  have "distinct (model_options (update_model_dropdown df mk))
          \<longleftrightarrow> ''All'' \<notin> Model ` {r \<in> set df. mk = ''All'' \<or> Make r = mk}"
    using sd by (simp add: v st [symmetric])
  with o v sd st show ?thesis by (intro exI [of _ ms] conjI) simp_all
qed

text \<open>C5, the counterexample: a model named \<^verbatim>\<open>All\<close> is listed after the leading \<^verbatim>\<open>All\<close>.\<close>

theorem model_options_duplicate_counterexample:
  "model_options (update_model_dropdown
      [\<lparr>Make = ''Honda'', Model = ''All'', Year = 2021, Rating = Num 8\<rparr>,
       \<lparr>Make = ''Honda'', Model = ''Accord'', Year = 2021, Rating = Num 7\<rparr>] ''Honda'')
     = [''All'', ''Accord'', ''All'']
   \<and> \<not> distinct [''All'', ''Accord'', ''All'']"
  by (simp add: model_options_def update_model_dropdown_def)

text \<open>C6. For every selected make the handler sets the model selection to \<^verbatim>\<open>All\<close>.\<close>

theorem make_change_resets_model:
  "model_value (update_model_dropdown df mk) = ''All''"
  by (simp add: model_value_def update_model_dropdown_def Let_def)

text \<open>
  C7, amended. For a dataset without negative rating: with no make selected the title
  is the static text. With a make and a model selected it shows the mean of that
  subset only. With a make selected and no model it shows the mean over the make; when
  the make has more than one model and at least one numeric rating it also names the
  best and the worst model by mean rating, the first in the order of the model names
  among equal means; when the make has at most one model it shows the mean alone.
\<close>

theorem title_by_selection:
  assumes "\<not> has_negative_rating df"
  shows "title_of (create_car_ratings_plot df ''All'' md) = Inr Static_Title
   \<and> (mk \<noteq> ''All'' \<and> md \<noteq> ''All'' \<longrightarrow>
        title_of (create_car_ratings_plot df mk md) =
          Inr (Model_Title mk md (arithmetic_mean (numeric_ratings (selected_rows df mk md)))))
   \<and> (mk \<noteq> ''All'' \<and> length (models_of df mk) \<le> 1 \<longrightarrow>
        title_of (create_car_ratings_plot df mk ''All'') =
          Inr (Make_Title mk (arithmetic_mean (numeric_ratings (brand_rows df mk)))))
   \<and> (mk \<noteq> ''All'' \<and> 1 < length (models_of df mk) \<and> numeric_ratings (brand_rows df mk) \<noteq> [] \<longrightarrow>
        (\<exists>b bv w wv.
           title_of (create_car_ratings_plot df mk ''All'') =
             Inr (Best_Worst_Title mk (arithmetic_mean (numeric_ratings (brand_rows df mk)))
                    b (Some bv) w (Some wv))
           \<and> b \<in> set (models_of df mk) \<and> model_mean df mk b = Some bv
           \<and> w \<in> set (models_of df mk) \<and> model_mean df mk w = Some wv
           \<and> (\<forall>m \<in> set (models_of df mk). \<forall>v. model_mean df mk m = Some v \<longrightarrow>
                 v \<le> bv \<and> (v = bv \<longrightarrow> b \<le> m) \<and> wv \<le> v \<and> (v = wv \<longrightarrow> w \<le> m))))"
proof (intro conjI impI)
  show "title_of (create_car_ratings_plot df ''All'' md) = Inr Static_Title"
    using assms by (simp add: title_of_create make_title_All)
next
  assume "mk \<noteq> ''All'' \<and> md \<noteq> ''All''"
  then show "title_of (create_car_ratings_plot df mk md) =
          Inr (Model_Title mk md (arithmetic_mean (numeric_ratings (selected_rows df mk md))))"
    using assms by (simp add: title_of_create make_title_model)
next
  assume "mk \<noteq> ''All'' \<and> length (models_of df mk) \<le> 1"
  then show "title_of (create_car_ratings_plot df mk ''All'') =
          Inr (Make_Title mk (arithmetic_mean (numeric_ratings (brand_rows df mk))))"
    using assms by (simp add: title_of_create make_title_single)
next
  assume a: "mk \<noteq> ''All'' \<and> 1 < length (models_of df mk) \<and> numeric_ratings (brand_rows df mk) \<noteq> []"
  then have "mk \<noteq> ''All''" "1 < length (models_of df mk)" "numeric_ratings (brand_rows df mk) \<noteq> []"
    by simp_all
  from make_title_best_worst [OF this]
  show "\<exists>b bv w wv.
           title_of (create_car_ratings_plot df mk ''All'') =
             Inr (Best_Worst_Title mk (arithmetic_mean (numeric_ratings (brand_rows df mk)))
                    b (Some bv) w (Some wv))
           \<and> b \<in> set (models_of df mk) \<and> model_mean df mk b = Some bv
           \<and> w \<in> set (models_of df mk) \<and> model_mean df mk w = Some wv
           \<and> (\<forall>m \<in> set (models_of df mk). \<forall>v. model_mean df mk m = Some v \<longrightarrow>
                 v \<le> bv \<and> (v = bv \<longrightarrow> b \<le> m) \<and> wv \<le> v \<and> (v = wv \<longrightarrow> w \<le> m))"
    using assms by (simp add: title_of_create)
qed

theorem title_by_selection_witness:
  "\<not> has_negative_rating fleet
   \<and> ((''Toyota'' \<noteq> ''All'' \<and> ''Camry'' \<noteq> ''All'')
     \<and> title_of (create_car_ratings_plot fleet ''Toyota'' ''Camry'') =
          Inr (Model_Title ''Toyota'' ''Camry'' (Some 9)))
   \<and> ((''Honda'' \<noteq> ''All'' \<and> length (models_of fleet ''Honda'') \<le> 1)
     \<and> title_of (create_car_ratings_plot fleet ''Honda'' ''All'') =
          Inr (Make_Title ''Honda'' (Some 7)))
   \<and> ((''Toyota'' \<noteq> ''All'' \<and> 1 < length (models_of fleet ''Toyota'')
        \<and> numeric_ratings (brand_rows fleet ''Toyota'') \<noteq> [])
     \<and> (\<exists>b bv w wv.
           title_of (create_car_ratings_plot fleet ''Toyota'' ''All'') =
             Inr (Best_Worst_Title ''Toyota'' (Some (26 / 3)) b (Some bv) w (Some wv))
           \<and> b = ''Camry'' \<and> bv = 9 \<and> w = ''Corolla'' \<and> wv = 8
           \<and> model_mean fleet ''Toyota'' b = Some bv
           \<and> model_mean fleet ''Toyota'' w = Some wv
           \<and> (\<forall>m \<in> set (models_of fleet ''Toyota''). \<forall>v. model_mean fleet ''Toyota'' m = Some v \<longrightarrow>
                 v \<le> bv \<and> (v = bv \<longrightarrow> b \<le> m) \<and> wv \<le> v \<and> (v = wv \<longrightarrow> w \<le> m))))"
proof -
  have h0: "\<not> has_negative_rating fleet"
    by (simp add: fleet_def has_negative_rating_def numeric_ratings_def)
  have h1: "''Toyota'' \<noteq> ''All'' \<and> ''Camry'' \<noteq> ''All''" by simp
  have h2: "''Honda'' \<noteq> ''All'' \<and> length (models_of fleet ''Honda'') \<le> 1"
    by (simp add: fleet_def models_of_def brand_rows_def)
  have h3: "''Toyota'' \<noteq> ''All'' \<and> 1 < length (models_of fleet ''Toyota'')
        \<and> numeric_ratings (brand_rows fleet ''Toyota'') \<noteq> []"
    by (simp add: fleet_def models_of_def brand_rows_def numeric_ratings_def)
  have m1: "arithmetic_mean (numeric_ratings (selected_rows fleet ''Toyota'' ''Camry'')) = Some 9"
    by (simp add: fleet_def arithmetic_mean_def numeric_ratings_def selected_rows_def brand_rows_def)
  have m2: "arithmetic_mean (numeric_ratings (brand_rows fleet ''Honda'')) = Some 7"
    by (simp add: fleet_def arithmetic_mean_def numeric_ratings_def brand_rows_def)
  have m3: "arithmetic_mean (numeric_ratings (brand_rows fleet ''Toyota'')) = Some (26 / 3)"
    by (simp add: fleet_def arithmetic_mean_def numeric_ratings_def brand_rows_def)
  have ev: "title_of (create_car_ratings_plot fleet ''Toyota'' ''All'') =
      Inr (Best_Worst_Title ''Toyota'' (Some (26 / 3)) ''Camry'' (Some 9) ''Corolla'' (Some 8))"
    by code_simp
  from title_by_selection [OF h0, where mk = "''Toyota''" and md = "''Camry''"] h1 m1
  have c1: "title_of (create_car_ratings_plot fleet ''Toyota'' ''Camry'') =
          Inr (Model_Title ''Toyota'' ''Camry'' (Some 9))" by simp
  from title_by_selection [OF h0, where mk = "''Honda''" and md = "''All''"] h2 m2
  have c2: "title_of (create_car_ratings_plot fleet ''Honda'' ''All'') =
          Inr (Make_Title ''Honda'' (Some 7))" by simp
  from title_by_selection [OF h0, where mk = "''Toyota''" and md = "''All''"] h3
  obtain b bv w wv where
    c3: "title_of (create_car_ratings_plot fleet ''Toyota'' ''All'') =
             Inr (Best_Worst_Title ''Toyota'' (arithmetic_mean (numeric_ratings (brand_rows fleet ''Toyota'')))
                    b (Some bv) w (Some wv))"
      "model_mean fleet ''Toyota'' b = Some bv" "model_mean fleet ''Toyota'' w = Some wv"
      "\<forall>m \<in> set (models_of fleet ''Toyota''). \<forall>v. model_mean fleet ''Toyota'' m = Some v \<longrightarrow>
                 v \<le> bv \<and> (v = bv \<longrightarrow> b \<le> m) \<and> wv \<le> v \<and> (v = wv \<longrightarrow> w \<le> m)"
    by blast
  from c3(1) ev have "b = ''Camry'' \<and> bv = 9 \<and> w = ''Corolla'' \<and> wv = 8" by simp
  with c3 m3 have "\<exists>b bv w wv.
           title_of (create_car_ratings_plot fleet ''Toyota'' ''All'') =
             Inr (Best_Worst_Title ''Toyota'' (Some (26 / 3)) b (Some bv) w (Some wv))
           \<and> b = ''Camry'' \<and> bv = 9 \<and> w = ''Corolla'' \<and> wv = 8
           \<and> model_mean fleet ''Toyota'' b = Some bv
           \<and> model_mean fleet ''Toyota'' w = Some wv
           \<and> (\<forall>m \<in> set (models_of fleet ''Toyota''). \<forall>v. model_mean fleet ''Toyota'' m = Some v \<longrightarrow>
                 v \<le> bv \<and> (v = bv \<longrightarrow> b \<le> m) \<and> wv \<le> v \<and> (v = wv \<longrightarrow> w \<le> m))"
    by simp
  with h0 h1 h2 h3 c1 c2 show ?thesis by blast
qed

text \<open>C7, the counterexample: a make with a single model gets no best and worst model.\<close>

theorem single_model_title_counterexample:
  "title_of (create_car_ratings_plot
       [\<lparr>Make = ''Toyota'', Model = ''Corolla'', Year = 2020, Rating = Num 8\<rparr>,
        \<lparr>Make = ''Toyota'', Model = ''Corolla'', Year = 2021, Rating = Missing\<rparr>]
       ''Toyota'' ''All'') = Inr (Make_Title ''Toyota'' (Some 8))
   \<and> \<not> shows_best_worst (Make_Title ''Toyota'' (Some 8))"
proof -
  let ?df = "[\<lparr>Make = ''Toyota'', Model = ''Corolla'', Year = 2020, Rating = Num 8\<rparr>,
        \<lparr>Make = ''Toyota'', Model = ''Corolla'', Year = 2021, Rating = Missing\<rparr>]"
  have nn: "\<not> has_negative_rating ?df"
    by (simp add: has_negative_rating_def numeric_ratings_def)
  have "make_title ?df ''Toyota'' ''All'' = Inr (Make_Title ''Toyota'' (Some 8))"
    by (simp add: make_title_def Let_def model_means_def mean_def List.map_filter_simps)
  with nn show ?thesis by (simp add: title_of_create)
qed

text \<open>
  C8. Non-numeric ratings are coerced to the missing marker without an error, but they
  can still make chart construction fail: when a make with two models has no numeric
  rating at all, selecting it makes the lookup of the best model raise.
\<close>

theorem all_ratings_non_numeric_raises:
  "returned (create_car_ratings_plot
       [\<lparr>Make = ''Toyota'', Model = ''Corolla'', Year = 2020, Rating = Text ''unrated''\<rparr>,
        \<lparr>Make = ''Toyota'', Model = ''Camry'', Year = 2020, Rating = Text ''unrated''\<rparr>]
       ''Toyota'' ''All'') = Inl KeyError"
  by code_simp

text \<open>
  C9, amended. The model-options callback leaves the dataset as it is. Chart
  construction and the figure update replace the Rating column by its numeric
  coercion: Make, Model and Year stay, numeric ratings stay, every other rating becomes
  missing; on a dataset that has been through it once it changes nothing.
\<close>

theorem callbacks_replace_only_non_numeric_ratings:
  "frame_after (update_model_dropdown df mk) = df
   \<and> frame_after (create_car_ratings_plot df mk md) = frame_after (update_figure df mk md)
   \<and> map Make (frame_after (update_figure df mk md)) = map Make df
   \<and> map Model (frame_after (update_figure df mk md)) = map Model df
   \<and> map Year (frame_after (update_figure df mk md)) = map Year df
   \<and> map Rating (frame_after (update_figure df mk md)) =
         map (\<lambda>r. case Rating r of Num v \<Rightarrow> Num v | _ \<Rightarrow> Missing) df
   \<and> frame_after (update_figure (frame_after (update_figure df mk md)) mk' md') =
         frame_after (update_figure df mk md)"
proof -
  have "to_numeric c = (case c of Num v \<Rightarrow> Num v | _ \<Rightarrow> Missing)" for c
    by (cases c) simp_all
  then have "map Rating (coerce_ratings df) = map (\<lambda>r. case Rating r of Num v \<Rightarrow> Num v | _ \<Rightarrow> Missing) df"
    by (simp add: coerce_ratings_def)
  moreover have "frame_after (update_model_dropdown df mk) = df"
    by (simp add: frame_after_def update_model_dropdown_def Let_def)
  ultimately show ?thesis
    by (simp add: frame_after_create frame_after_update_figure Make_coerce Model_coerce
        Year_coerce coerce_idem)
qed

text \<open>C9, the counterexample: a figure update turns a textual rating into a missing one.\<close>

theorem figure_update_changes_dataset_counterexample:
  "frame_after (update_figure
       [\<lparr>Make = ''Volvo'', Model = ''XC90'', Year = 2020, Rating = Text ''unrated''\<rparr>]
       ''All'' ''All'')
     = [\<lparr>Make = ''Volvo'', Model = ''XC90'', Year = 2020, Rating = Missing\<rparr>]
   \<and> [\<lparr>Make = ''Volvo'', Model = ''XC90'', Year = 2020, Rating = Missing\<rparr>]
     \<noteq> [\<lparr>Make = ''Volvo'', Model = ''XC90'', Year = 2020, Rating = Text ''unrated''\<rparr>]"
  by (simp add: frame_after_update_figure coerce_ratings_def)

text \<open>
  C10. For a dataset without negative rating and with a model selected, the figure
  update leaves a trace of the built chart visible exactly when the selected model is
  a substring of the trace name; with no make selected the visible traces are exactly
  those whose name contains the model. There are datasets where a trace of another
  model stays visible: selecting Golf keeps Golf GTI.
\<close>

theorem model_selection_is_substring_test:
  assumes "md \<noteq> ''All''" and "\<not> has_negative_rating df"
  shows "(\<exists>fig0 fig.
       returned (create_car_ratings_plot df mk md) = Inr fig0
     \<and> returned (update_figure df mk md) = Inr fig
     \<and> length (data fig) = length (data fig0)
     \<and> (\<forall>i < length (data fig).
           name (data fig ! i) = name (data fig0 ! i)
         \<and> (visible (data fig ! i) = Visible \<longleftrightarrow>
              visible (data fig0 ! i) = Visible \<and> sublist md (name (data fig0 ! i)))))
   \<and> visibility_of (update_figure df ''All'' md) =
       Inr (map (\<lambda>k. (series_name k, if sublist md (series_name k) then Visible else LegendOnly))
              (group_keys df))
   \<and> (\<exists>df' md' k. md' \<noteq> ''All'' \<and> \<not> has_negative_rating df'
         \<and> k \<in> set (group_keys df') \<and> snd k \<noteq> md'
         \<and> visibility_of (update_figure df' ''All'' md') = Inr [(series_name k, Visible)])"
proof (intro conjI)
  have "\<not> title_raises df mk md" using assms by (simp add: title_raises_def)
  from make_title_total [OF this] obtain t where t: "make_title df mk md = Inr t" ..
  define built where "built = \<lparr>data = all_traces df mk, layout_title = t\<rparr>"
  define shown where
    "shown = \<lparr>data = map (hide_unless_named md) (all_traces df mk), layout_title = t\<rparr>"
  have r1: "returned (create_car_ratings_plot df mk md) = Inr built"
    using t assms by (simp add: returned_create built_def)
  have r2: "returned (update_figure df mk md) = Inr shown"
    using t assms by (simp add: returned_update_figure shown_def)
  have d: "data shown = map (hide_unless_named md) (data built)"
    by (simp add: built_def shown_def)
  have l: "length (data shown) = length (data built)" by (simp add: d)
  have v: "name (data shown ! i) = name (data built ! i)
         \<and> (visible (data shown ! i) = Visible \<longleftrightarrow>
              visible (data built ! i) = Visible \<and> sublist md (name (data built ! i)))"
    if "i < length (data shown)" for i
    using that by (simp add: d hide_fields)
  show "\<exists>fig0 fig.
       returned (create_car_ratings_plot df mk md) = Inr fig0
     \<and> returned (update_figure df mk md) = Inr fig
     \<and> length (data fig) = length (data fig0)
     \<and> (\<forall>i < length (data fig).
           name (data fig ! i) = name (data fig0 ! i)
         \<and> (visible (data fig ! i) = Visible \<longleftrightarrow>
              visible (data fig0 ! i) = Visible \<and> sublist md (name (data fig0 ! i))))"
    apply (rule exI [of _ built])
    apply (rule exI [of _ shown])
    using r1 r2 l v apply blast
    done
next
  show "visibility_of (update_figure df ''All'' md) =
       Inr (map (\<lambda>k. (series_name k, if sublist md (series_name k) then Visible else LegendOnly))
              (group_keys df))"
    using visibility_of_update_figure [OF assms, of "''All''"] by simp
next
  let ?df = "[\<lparr>Make = ''VW'', Model = ''Golf GTI'', Year = 2020, Rating = Num 9\<rparr>]"
  have g: "group_keys ?df = [(''VW'', ''Golf GTI'')]" by (simp add: group_keys_def)
  have n: "series_name (''VW'', ''Golf GTI'') = ''VW - Golf GTI''" by (simp add: series_name_def)
  have s: "sublist ''Golf'' ''VW - Golf GTI''" by code_simp
  have m: "''Golf'' \<noteq> ''All''" by simp
  have nn: "\<not> has_negative_rating ?df"
    by (simp add: has_negative_rating_def numeric_ratings_def)
  have "visibility_of (update_figure ?df ''All'' ''Golf'') = Inr [(''VW - Golf GTI'', Visible)]"
    using visibility_of_update_figure [OF m nn, of "''All''"] unfolding g by (simp add: n s)
  then have "visibility_of (update_figure ?df ''All'' ''Golf'')
      = Inr [(series_name (''VW'', ''Golf GTI''), Visible)]"
    by (simp only: n)
  moreover have "(''VW'', ''Golf GTI'') \<in> set (group_keys ?df)" unfolding g by simp
  moreover have "snd (''VW'', ''Golf GTI'') \<noteq> ''Golf''" by simp
  ultimately have "''Golf'' \<noteq> ''All'' \<and> \<not> has_negative_rating ?df
         \<and> (''VW'', ''Golf GTI'') \<in> set (group_keys ?df)
         \<and> snd (''VW'', ''Golf GTI'') \<noteq> ''Golf''
         \<and> visibility_of (update_figure ?df ''All'' ''Golf'')
             = Inr [(series_name (''VW'', ''Golf GTI''), Visible)]"
    using m nn by (intro conjI)
  then show "\<exists>df' md' k. md' \<noteq> ''All'' \<and> \<not> has_negative_rating df'
         \<and> k \<in> set (group_keys df') \<and> snd k \<noteq> md'
         \<and> visibility_of (update_figure df' ''All'' md') = Inr [(series_name k, Visible)]"
    by (intro exI)
qed

theorem model_selection_is_substring_test_witness:
  "''Golf'' \<noteq> ''All'' \<and> \<not> has_negative_rating golf
   \<and> visibility_of (update_figure golf ''All'' ''Golf'') =
       Inr [(''VW - Golf'', Visible), (''VW - Golf GTI'', Visible), (''Volvo - XC90'', LegendOnly)]"
proof -
  have h: "''Golf'' \<noteq> ''All''" by simp
  have nn: "\<not> has_negative_rating golf"
    by (simp add: golf_def has_negative_rating_def numeric_ratings_def)
  have g: "group_keys golf = [(''VW'', ''Golf''), (''VW'', ''Golf GTI''), (''Volvo'', ''XC90'')]"
    by (simp add: golf_def group_keys_def)
  have n: "series_name (''VW'', ''Golf'') = ''VW - Golf''"
    "series_name (''VW'', ''Golf GTI'') = ''VW - Golf GTI''"
    "series_name (''Volvo'', ''XC90'') = ''Volvo - XC90''"
    by (simp_all add: series_name_def)
  have s: "sublist ''Golf'' ''VW - Golf''" "sublist ''Golf'' ''VW - Golf GTI''"
    "\<not> sublist ''Golf'' ''Volvo - XC90''" by code_simp+
  have "visibility_of (update_figure golf ''All'' ''Golf'') =
       Inr (map (\<lambda>k. (series_name k, if sublist ''Golf'' (series_name k) then Visible else LegendOnly))
              (group_keys golf))"
    by (rule model_selection_is_substring_test [OF h nn, THEN conjunct2, THEN conjunct1])
  then show ?thesis unfolding g using h nn by (simp add: n s)
qed

end
